theory Spec2Isabelle
  imports Complex_Main "HOL-Library.Word" "HOL-Library.Sublist"
begin

section \<open>Python values used by AuctionAgent.py\<close>

text \<open>
  Something that is raised: an instance of \<open>BaseException\<close>, with its class name.
  \<open>is_Exception\<close> says whether it is an instance of \<open>Exception\<close>, the class that the three
  tool functions handle (\<open>except Exception as e\<close>); \<open>KeyboardInterrupt\<close>, \<open>SystemExit\<close> and
  \<open>GeneratorExit\<close> are not. \<open>exc_str\<close> is what \<open>str(e)\<close> does: it returns a text, or its
  \<open>__str__\<close> raises in turn.
\<close>

datatype py_exception =
  PyException (exc_class: string) (is_Exception: bool) (exc_str: "py_exception + string")

text \<open>What the interpreter itself raises here: an \<open>Exception\<close> whose \<open>str\<close> is its message.\<close>

definition builtin_error :: "string \<Rightarrow> string \<Rightarrow> py_exception" where
  "builtin_error name message = PyException name True (Inr message)"

text \<open>The values a tool function puts into an argument dictionary: \<open>str\<close> and \<open>int\<close>.\<close>

datatype py_value = PyStr string | PyInt int

text \<open>Sequencing inside a \<open>try\<close> block: the first raise ends the block.\<close>

definition and_then :: "py_exception + 'a \<Rightarrow> ('a \<Rightarrow> py_exception + 'b) \<Rightarrow> py_exception + 'b" where
  "and_then r f = (case r of Inl e \<Rightarrow> Inl e | Inr v \<Rightarrow> f v)"

subsection \<open>\<open>str\<close> of an \<open>int\<close>, as an f-string field formats it\<close>

text \<open>
  Decimal digits, with a minus sign for a negative number. The conversion raises
  \<open>ValueError\<close> when the number has more digits than the interpreter's limit, which is
  \<open>sys.get_int_max_str_digits()\<close>, 4300 unless the host changes it.
\<close>

definition digit_char :: "nat \<Rightarrow> char" where
  "digit_char d = ''0123456789'' ! d"

fun str_nat :: "nat \<Rightarrow> string" where
  "str_nat n = (if n < 10 then [digit_char n] else str_nat (n div 10) @ [digit_char (n mod 10)])"

declare str_nat.simps [simp del]

definition decimal :: "int \<Rightarrow> string" where
  "decimal i = (if i < 0 then CHR ''-'' # str_nat (nat (- i)) else str_nat (nat i))"

definition int_max_str_digits :: nat where
  "int_max_str_digits = 4300"

definition digits_limit_text :: string where
  "digits_limit_text =
     ''Exceeds the limit (4300 digits) for integer string conversion; '' @
     ''use sys.set_int_max_str_digits() to increase the limit''"

definition str_int :: "int \<Rightarrow> py_exception + string" where
  "str_int i =
     (if 10 ^ int_max_str_digits \<le> \<bar>i\<bar> then Inl (builtin_error ''ValueError'' digits_limit_text)
      else Inr (decimal i))"

section \<open>Python's \<open>float\<close>\<close>

text \<open>
  A Python \<open>float\<close> is an IEEE 754 binary64 value; here it is its 64-bit pattern (sign bit,
  11 exponent bits, 52 fraction bits), so every word is a float and every float a word.
  \<open>decode\<close> reads the pattern: \<open>Finite sign m e\<close> stands for \<open>(-1)^sign * m * 2^e\<close>.
\<close>

type_synonym float64 = "64 word"

datatype float_value = Finite bool nat int | Infinity bool | NaN

definition decode :: "float64 \<Rightarrow> float_value" where
  "decode w =
     (let sign = bit w 63;
          biased = unat (take_bit 11 (drop_bit 52 w));
          fraction = unat (take_bit 52 w)
      in if biased = 2047 then (if fraction = 0 then Infinity sign else NaN)
         else if biased = 0 then Finite sign fraction (- 1074)
         else Finite sign (2 ^ 52 + fraction) (int biased - 1075))"

text \<open>The real number a finite float stands for.\<close>

fun valof :: "float_value \<Rightarrow> real" where
  "valof (Finite sign m e) = (if sign then - 1 else 1) * real m * 2 powi e"

text \<open>Python's \<open>x >= 0\<close> and \<open>x <= 0\<close> on a float (both false on NaN, both true on \<open>-0.0\<close>).\<close>

fun float_ge_zero :: "float_value \<Rightarrow> bool" where
  "float_ge_zero NaN = False"
| "float_ge_zero (Infinity sign) = (\<not> sign)"
| "float_ge_zero (Finite sign m e) = (m = 0 \<or> \<not> sign)"

fun float_le_zero :: "float_value \<Rightarrow> bool" where
  "float_le_zero NaN = False"
| "float_le_zero (Infinity sign) = sign"
| "float_le_zero (Finite sign m e) = (m = 0 \<or> sign)"

fun is_finite :: "float_value \<Rightarrow> bool" where
  "is_finite (Finite sign m e) = True"
| "is_finite _ = False"

subsection \<open>Rounding to the nearest double, ties to even\<close>

text \<open>\<open>int.bit_length\<close>.\<close>

fun bit_length :: "nat \<Rightarrow> nat" where
  "bit_length n = (if n = 0 then 0 else Suc (bit_length (n div 2)))"

declare bit_length.simps [simp del]

text \<open>\<open>n / 2^s\<close> rounded to the nearest integer, a tie to the even one.\<close>

definition round_half_even :: "nat \<Rightarrow> nat \<Rightarrow> nat" where
  "round_half_even n s =
     (if s = 0 then n
      else let q = n div 2 ^ s; r = n mod 2 ^ s; half = 2 ^ (s - 1)
           in if half < r \<or> (r = half \<and> odd q) then q + 1 else q)"

text \<open>
  The double nearest to \<open>n * 2^e\<close>: 53 significant bits are kept, fewer below the smallest
  normal exponent, and a result of \<open>2^1024\<close> or more is an infinity.
\<close>

definition round_to_double :: "bool \<Rightarrow> nat \<Rightarrow> int \<Rightarrow> float_value" where
  "round_to_double sign n e =
     (let s = nat (max (int (bit_length n) - 53) (- 1074 - e));
          q = round_half_even n s;
          e' = e + int s
      in if int (bit_length q) + e' > 1024 then Infinity sign else Finite sign q e')"

subsection \<open>The operations the tools use: \<open>float * int\<close> and \<open>int(float)\<close>\<close>

fun float_mul :: "float_value \<Rightarrow> float_value \<Rightarrow> float_value" where
  "float_mul NaN _ = NaN"
| "float_mul _ NaN = NaN"
| "float_mul (Infinity s1) (Infinity s2) = Infinity (s1 \<noteq> s2)"
| "float_mul (Infinity s1) (Finite s2 m2 e2) = (if m2 = 0 then NaN else Infinity (s1 \<noteq> s2))"
| "float_mul (Finite s1 m1 e1) (Infinity s2) = (if m1 = 0 then NaN else Infinity (s1 \<noteq> s2))"
| "float_mul (Finite s1 m1 e1) (Finite s2 m2 e2) = round_to_double (s1 \<noteq> s2) (m1 * m2) (e1 + e2)"

text \<open>The conversion of an \<open>int\<close> operand to \<open>float\<close>; it raises when the \<open>int\<close> is too large.\<close>

definition float_of_int :: "int \<Rightarrow> py_exception + float_value" where
  "float_of_int i =
     (case round_to_double (i < 0) (nat \<bar>i\<bar>) 0 of
        Infinity _ \<Rightarrow> Inl (builtin_error ''OverflowError'' ''int too large to convert to float'')
      | v \<Rightarrow> Inr v)"

text \<open>\<open>x * i\<close> for a float \<open>x\<close> and an int \<open>i\<close>: \<open>i\<close> is converted, then the floats are multiplied.\<close>

definition float_times_int :: "float_value \<Rightarrow> int \<Rightarrow> py_exception + float_value" where
  "float_times_int x i = and_then (float_of_int i) (\<lambda>y. Inr (float_mul x y))"

text \<open>\<open>int(x)\<close> for a float \<open>x\<close>: truncation towards zero; it raises on an infinity and on NaN.\<close>

fun int_of_float :: "float_value \<Rightarrow> py_exception + int" where
  "int_of_float NaN = Inl (builtin_error ''ValueError'' ''cannot convert float NaN to integer'')"
| "int_of_float (Infinity _) = Inl (builtin_error ''OverflowError'' ''cannot convert float infinity to integer'')"
| "int_of_float (Finite sign m e) =
     Inr ((if sign then - 1 else 1) *
          (if 0 \<le> e then int m * 2 ^ nat e else int m div 2 ^ nat (- e)))"

subsection \<open>\<open>repr\<close> of a float, as an f-string field formats it\<close>

text \<open>
  The position of the decimal point of \<open>m * 2^e\<close> for \<open>m > 0\<close>: the \<open>p\<close> with
  \<open>10^(p-1) \<le> m * 2^e < 10^p\<close>.
\<close>

definition decimal_point :: "nat \<Rightarrow> int \<Rightarrow> int" where
  "decimal_point m e =
     (if 0 \<le> e then int (length (str_nat (m * 2 ^ nat e)))
      else if 2 ^ nat (- e) \<le> m then int (length (str_nat (m div 2 ^ nat (- e))))
      else 1 - int (length (str_nat ((2 ^ nat (- e) - 1) div m))))"

text \<open>
  The decimal \<open>d * 10^k\<close> of at most \<open>n\<close> digits that is nearest to the double \<open>m * 2^e\<close>
  (a tie goes to the even \<open>d\<close>) among those that read back as this double, if there is
  one. The double is in canonical form: \<open>2^52 \<le> m < 2^53\<close>, or \<open>e = -1074\<close>. What reads
  back as it lies within half a unit in the last place, the ends included when \<open>m\<close> is
  even; below a power of two the doubles are twice as dense.
\<close>

definition digits_candidate :: "nat \<Rightarrow> int \<Rightarrow> nat \<Rightarrow> (nat \<times> int) option" where
  "digits_candidate m e n =
     (let k = decimal_point m e - int n;
          S = 10 ^ nat (- k) * 2 ^ nat (e - 2);
          T = 10 ^ nat k * 2 ^ nat (2 - e);
          x = 4 * m * S;
          lo = (4 * m - (if m = 2 ^ 52 \<and> - 1074 < e then 1 else 2)) * S;
          hi = (4 * m + 2) * S;
          inside = (\<lambda>d. if even m then lo \<le> d * T \<and> d * T \<le> hi else lo < d * T \<and> d * T < hi);
          down = x div T;
          up = down + 1;
          rest = x mod T
      in if inside down then
           (if inside up \<and> (T < 2 * rest \<or> (T = 2 * rest \<and> odd down)) then Some (up, k)
            else Some (down, k))
         else if inside up then Some (up, k)
         else None)"

text \<open>
  The first number of digits, from \<open>n\<close> on, for which there is such a decimal. Seventeen
  digits always identify a double.
\<close>

function shortest_from :: "nat \<Rightarrow> int \<Rightarrow> nat \<Rightarrow> nat \<times> int" where
  "shortest_from m e n =
     (case digits_candidate m e n of
        Some r \<Rightarrow> r
      | None \<Rightarrow> if n < 17 then shortest_from m e (n + 1) else (0, 0))"
  by pat_completeness auto
termination
  by (relation "measure (\<lambda>(m, e, n). 17 - n)") auto

declare shortest_from.simps [simp del]

fun strip_zeros :: "nat \<Rightarrow> int \<Rightarrow> nat \<times> int" where
  "strip_zeros d k = (if d \<noteq> 0 \<and> d mod 10 = 0 then strip_zeros (d div 10) (k + 1) else (d, k))"

declare strip_zeros.simps [simp del]

definition canonical :: "nat \<Rightarrow> int \<Rightarrow> nat \<times> int" where
  "canonical m e = (let k = nat (min (53 - int (bit_length m)) (e + 1074)) in (m * 2 ^ k, e - int k))"

text \<open>
  The shortest digit string that reads back as the double, and the position of its decimal
  point: the value printed is \<open>0.d1 d2 ... dn * 10^decpt\<close>.
\<close>

definition shortest_digits :: "nat \<Rightarrow> int \<Rightarrow> string \<times> int" where
  "shortest_digits m e =
     (case canonical m e of (m', e') \<Rightarrow>
      case shortest_from m' e' 1 of (d, k) \<Rightarrow>
      case strip_zeros d k of (d', k') \<Rightarrow>
        (str_nat d', k' + int (length (str_nat d'))))"

definition format_exponent :: "int \<Rightarrow> string" where
  "format_exponent x =
     (if x < 0 then ''-'' else ''+'') @ (if \<bar>x\<bar> < 10 then ''0'' else []) @ str_nat (nat \<bar>x\<bar>)"

text \<open>
  Exponent notation below \<open>1e-4\<close> and from \<open>1e16\<close> on, positional notation between, with
  \<open>.0\<close> after a whole number.
\<close>

definition format_repr :: "string \<Rightarrow> int \<Rightarrow> string" where
  "format_repr ds decpt =
     (if decpt \<le> - 4 \<or> 16 < decpt then
        (if length ds = 1 then ds else take 1 ds @ ''.'' @ drop 1 ds) @ ''e'' @ format_exponent (decpt - 1)
      else if decpt \<le> 0 then ''0.'' @ replicate (nat (- decpt)) CHR ''0'' @ ds
      else if int (length ds) \<le> decpt then ds @ replicate (nat (decpt - int (length ds))) CHR ''0'' @ ''.0''
      else take (nat decpt) ds @ ''.'' @ drop (nat decpt) ds)"

fun float_repr :: "float_value \<Rightarrow> string" where
  "float_repr NaN = ''nan''"
| "float_repr (Infinity sign) = (if sign then ''-inf'' else ''inf'')"
| "float_repr (Finite sign m e) =
     (if sign then ''-'' else []) @
     (if m = 0 then ''0.0'' else case shortest_digits m e of (ds, decpt) \<Rightarrow> format_repr ds decpt)"

definition str_float :: "float64 \<Rightarrow> string" where
  "str_float x = float_repr (decode x)"

section \<open>The wallet capability\<close>

text \<open>
  What \<open>wallet.invoke_contract(contract_address=.., method=.., args=.., abi=.., value=..)\<close>
  is called with. \<open>inv_value\<close> is \<open>None\<close> when the keyword \<open>value\<close> is not passed.
  The ABI table \<open>AUCTION_ABI\<close> comes from the module \<open>constant\<close>; it is a parameter of
  type \<open>'abi\<close> here.
\<close>

record 'abi invocation =
  inv_contract_address :: string
  inv_method :: string
  inv_args :: "(string \<times> py_value) list"
  inv_abi :: 'abi
  inv_value :: "int option"

text \<open>
  The object that \<open>.wait()\<close> returns. Reading an attribute either raises (for example
  \<open>AttributeError\<close> when it is missing) or yields a value, kept as the text an f-string
  field makes of it.
\<close>

record transaction_obj =
  transaction_hash :: "py_exception + string"
  transaction_link :: "py_exception + string"

record settled_invocation =
  transaction :: "py_exception + transaction_obj"

text \<open>
  What the wallet has been asked to do so far: one event for each call of
  \<open>invoke_contract\<close> and one for each call of \<open>wait\<close> on what it returned.
\<close>

datatype 'abi wallet_event = Invoked "'abi invocation" | Waited "'abi invocation"

text \<open>
  The wallet is an injected collaborator. Its answers may depend on everything it was
  asked before: \<open>on_invoke\<close> says whether \<open>invoke_contract\<close> raises, \<open>on_wait\<close> whether
  \<open>wait\<close> raises or which settled object it returns.
\<close>

record 'abi wallet =
  on_invoke :: "'abi wallet_event list \<Rightarrow> 'abi invocation \<Rightarrow> py_exception option"
  on_wait :: "'abi wallet_event list \<Rightarrow> 'abi invocation \<Rightarrow> py_exception + settled_invocation"
  history :: "'abi wallet_event list"

datatype 'abi pending_invocation = Pending "'abi invocation"

definition invoke_contract ::
  "'abi wallet \<Rightarrow> 'abi invocation \<Rightarrow> (py_exception + 'abi pending_invocation) \<times> 'abi wallet" where
  "invoke_contract wallet call =
     (case on_invoke wallet (history wallet) call of
        Some e \<Rightarrow> Inl e
      | None \<Rightarrow> Inr (Pending call),
      wallet\<lparr>history := history wallet @ [Invoked call]\<rparr>)"

fun wait :: "'abi wallet \<Rightarrow> 'abi pending_invocation \<Rightarrow> (py_exception + settled_invocation) \<times> 'abi wallet" where
  "wait wallet (Pending call) =
     (on_wait wallet (history wallet) call, wallet\<lparr>history := history wallet @ [Waited call]\<rparr>)"

text \<open>\<open>wallet.invoke_contract(...).wait()\<close>: \<open>wait\<close> is reached only if the submission returned.\<close>

definition invoke_and_wait ::
  "'abi wallet \<Rightarrow> 'abi invocation \<Rightarrow> (py_exception + settled_invocation) \<times> 'abi wallet" where
  "invoke_and_wait wallet call =
     (case invoke_contract wallet call of
        (Inl e, wallet1) \<Rightarrow> (Inl e, wallet1)
      | (Inr pending, wallet1) \<Rightarrow> wait wallet1 pending)"

text \<open>\<open>result.transaction.transaction_hash\<close> and \<open>result.transaction.transaction_link\<close>.\<close>

definition read_transaction_hash :: "settled_invocation \<Rightarrow> py_exception + string" where
  "read_transaction_hash result = and_then (transaction result) transaction_hash"

definition read_transaction_link :: "settled_invocation \<Rightarrow> py_exception + string" where
  "read_transaction_link result = and_then (transaction result) transaction_link"

section \<open>The auction tools\<close>

definition AUCTION_CONTRACT_ADDRESS :: string where
  "AUCTION_CONTRACT_ADDRESS = ''0xA0f0b923532fdbcd85A11ccAED1362691C7931fA''"

definition newline :: string where
  "newline = [CHR 0x0A]"

text \<open>
  \<open>int(price * 10**18)\<close>, the conversion from ETH to wei that \<open>start_nft_auction\<close> and
  \<open>bid_on_nft\<close> both write out. The price is a \<open>float\<close>, as the signatures and the
  argument schemas of the tools declare it.
\<close>

definition eth_to_wei :: "float64 \<Rightarrow> py_exception + int" where
  "eth_to_wei price = and_then (float_times_int (decode price) (10 ^ 18)) int_of_float"

subsection \<open>\<open>start_nft_auction\<close>\<close>

definition start_invocation :: "'abi \<Rightarrow> string \<Rightarrow> int \<Rightarrow> int \<Rightarrow> int \<Rightarrow> 'abi invocation" where
  "start_invocation AUCTION_ABI nft_contract_address token_id starting_price_wei duration =
     \<lparr>inv_contract_address = AUCTION_CONTRACT_ADDRESS,
      inv_method = ''createAuction'',
      inv_args = [(''nftContract'', PyStr nft_contract_address),
                  (''tokenId'', PyInt token_id),
                  (''startingPrice'', PyInt starting_price_wei),
                  (''duration'', PyInt duration)],
      inv_abi = AUCTION_ABI,
      inv_value = None\<rparr>"

definition start_message ::
  "string \<Rightarrow> int \<Rightarrow> float64 \<Rightarrow> int \<Rightarrow> settled_invocation \<Rightarrow> py_exception + string" where
  "start_message nft_contract_address token_id starting_price duration auction_creation =
     and_then (str_int token_id) (\<lambda>token_text.
     and_then (str_int duration) (\<lambda>duration_text.
     and_then (read_transaction_hash auction_creation) (\<lambda>tx_hash.
     and_then (read_transaction_link auction_creation) (\<lambda>tx_link.
     Inr (''Auction created successfully for token ID '' @ token_text @ ''.'' @ newline @
          ''NFT Contract: '' @ nft_contract_address @ newline @
          ''Starting price: '' @ str_float starting_price @ '' ETH'' @ newline @
          ''Duration: '' @ duration_text @ '' seconds'' @ newline @
          ''Transaction hash: '' @ tx_hash @ newline @
          ''Transaction link: '' @ tx_link)))))"

text \<open>The body of the \<open>try\<close> block.\<close>

definition start_nft_auction_try ::
  "'abi \<Rightarrow> 'abi wallet \<Rightarrow> string \<Rightarrow> int \<Rightarrow> float64 \<Rightarrow> int \<Rightarrow> (py_exception + string) \<times> 'abi wallet" where
  "start_nft_auction_try AUCTION_ABI wallet nft_contract_address token_id starting_price duration =
     (case eth_to_wei starting_price of
        Inl e \<Rightarrow> (Inl e, wallet)
      | Inr starting_price_wei \<Rightarrow>
          (case invoke_and_wait wallet
                  (start_invocation AUCTION_ABI nft_contract_address token_id starting_price_wei duration) of
             (Inl e, wallet1) \<Rightarrow> (Inl e, wallet1)
           | (Inr auction_creation, wallet1) \<Rightarrow>
               (start_message nft_contract_address token_id starting_price duration auction_creation,
                wallet1)))"

text \<open>
  The whole function. Its result is the text it returns, or \<open>Inl\<close> what it lets through to
  its caller. The \<open>except Exception as e\<close> clause takes an instance of \<open>Exception\<close> and
  returns the prefix followed by \<open>str(e)\<close>; what \<open>str(e)\<close> raises there, and what is not an
  instance of \<open>Exception\<close>, goes on to the caller.
\<close>

definition start_nft_auction ::
  "'abi \<Rightarrow> 'abi wallet \<Rightarrow> string \<Rightarrow> int \<Rightarrow> float64 \<Rightarrow> int \<Rightarrow> (py_exception + string) \<times> 'abi wallet" where
  "start_nft_auction AUCTION_ABI wallet nft_contract_address token_id starting_price duration =
     (case start_nft_auction_try AUCTION_ABI wallet nft_contract_address token_id starting_price duration of
        (Inl e, wallet1) \<Rightarrow>
          (if is_Exception e then and_then (exc_str e) (\<lambda>text_of_e. Inr (''Error creating auction: '' @ text_of_e))
           else Inl e,
           wallet1)
      | (Inr message, wallet1) \<Rightarrow> (Inr message, wallet1))"

subsection \<open>\<open>bid_on_nft\<close>\<close>

definition bid_invocation :: "'abi \<Rightarrow> int \<Rightarrow> int \<Rightarrow> 'abi invocation" where
  "bid_invocation AUCTION_ABI token_id bid_amount_wei =
     \<lparr>inv_contract_address = AUCTION_CONTRACT_ADDRESS,
      inv_method = ''bid'',
      inv_args = [(''tokenId'', PyInt token_id)],
      inv_abi = AUCTION_ABI,
      inv_value = Some bid_amount_wei\<rparr>"

definition bid_message :: "int \<Rightarrow> float64 \<Rightarrow> settled_invocation \<Rightarrow> py_exception + string" where
  "bid_message token_id bid_amount bid_result =
     and_then (str_int token_id) (\<lambda>token_text.
     and_then (read_transaction_hash bid_result) (\<lambda>tx_hash.
     and_then (read_transaction_link bid_result) (\<lambda>tx_link.
     Inr (''Bid placed on token ID '' @ token_text @ '' with amount '' @
          str_float bid_amount @ '' ETH.'' @ newline @
          ''Transaction hash: '' @ tx_hash @ newline @
          ''Transaction link: '' @ tx_link))))"

definition bid_on_nft_try ::
  "'abi \<Rightarrow> 'abi wallet \<Rightarrow> int \<Rightarrow> float64 \<Rightarrow> (py_exception + string) \<times> 'abi wallet" where
  "bid_on_nft_try AUCTION_ABI wallet token_id bid_amount =
     (case eth_to_wei bid_amount of
        Inl e \<Rightarrow> (Inl e, wallet)
      | Inr bid_amount_wei \<Rightarrow>
          (case invoke_and_wait wallet (bid_invocation AUCTION_ABI token_id bid_amount_wei) of
             (Inl e, wallet1) \<Rightarrow> (Inl e, wallet1)
           | (Inr bid_result, wallet1) \<Rightarrow> (bid_message token_id bid_amount bid_result, wallet1)))"

definition bid_on_nft ::
  "'abi \<Rightarrow> 'abi wallet \<Rightarrow> int \<Rightarrow> float64 \<Rightarrow> (py_exception + string) \<times> 'abi wallet" where
  "bid_on_nft AUCTION_ABI wallet token_id bid_amount =
     (case bid_on_nft_try AUCTION_ABI wallet token_id bid_amount of
        (Inl e, wallet1) \<Rightarrow>
          (if is_Exception e then and_then (exc_str e) (\<lambda>text_of_e. Inr (''Error placing bid: '' @ text_of_e))
           else Inl e,
           wallet1)
      | (Inr message, wallet1) \<Rightarrow> (Inr message, wallet1))"

subsection \<open>\<open>finalize_nft_auction\<close>\<close>

definition finalize_invocation :: "'abi \<Rightarrow> int \<Rightarrow> 'abi invocation" where
  "finalize_invocation AUCTION_ABI token_id =
     \<lparr>inv_contract_address = AUCTION_CONTRACT_ADDRESS,
      inv_method = ''finalizeAuction'',
      inv_args = [(''tokenId'', PyInt token_id)],
      inv_abi = AUCTION_ABI,
      inv_value = None\<rparr>"

definition finalize_message :: "int \<Rightarrow> settled_invocation \<Rightarrow> py_exception + string" where
  "finalize_message token_id finalize_result =
     and_then (str_int token_id) (\<lambda>token_text.
     and_then (read_transaction_hash finalize_result) (\<lambda>tx_hash.
     and_then (read_transaction_link finalize_result) (\<lambda>tx_link.
     Inr (''Auction finalized for token ID '' @ token_text @ ''.'' @ newline @
          ''Transaction hash: '' @ tx_hash @ newline @
          ''Transaction link: '' @ tx_link))))"

text \<open>The body of the \<open>try\<close> block.\<close>

definition finalize_nft_auction_try ::
  "'abi \<Rightarrow> 'abi wallet \<Rightarrow> int \<Rightarrow> (py_exception + string) \<times> 'abi wallet" where
  "finalize_nft_auction_try AUCTION_ABI wallet token_id =
     (case invoke_and_wait wallet (finalize_invocation AUCTION_ABI token_id) of
        (Inl e, wallet1) \<Rightarrow> (Inl e, wallet1)
      | (Inr finalize_result, wallet1) \<Rightarrow> (finalize_message token_id finalize_result, wallet1))"

text \<open>
  The whole function. Its result is the text it returns, or \<open>Inl\<close> what it lets through to
  its caller. The \<open>except Exception as e\<close> clause takes an instance of \<open>Exception\<close> and
  returns the prefix followed by \<open>str(e)\<close>; what \<open>str(e)\<close> raises there, and what is not an
  instance of \<open>Exception\<close>, goes on to the caller.
\<close>

definition finalize_nft_auction ::
  "'abi \<Rightarrow> 'abi wallet \<Rightarrow> int \<Rightarrow> (py_exception + string) \<times> 'abi wallet" where
  "finalize_nft_auction AUCTION_ABI wallet token_id =
     (case finalize_nft_auction_try AUCTION_ABI wallet token_id of
        (Inl e, wallet1) \<Rightarrow>
          (if is_Exception e then and_then (exc_str e) (\<lambda>text_of_e. Inr (''Error finalizing auction: '' @ text_of_e))
           else Inl e,
           wallet1)
      | (Inr message, wallet1) \<Rightarrow> (Inr message, wallet1))"

section \<open>Test doubles\<close>

text \<open>A wallet stub that accepts every invocation and always settles with the same hash and link.\<close>

definition settled_with :: "string \<Rightarrow> string \<Rightarrow> settled_invocation" where
  "settled_with tx_hash tx_link =
     \<lparr>transaction = Inr \<lparr>transaction_hash = Inr tx_hash, transaction_link = Inr tx_link\<rparr>\<rparr>"

definition stub_wallet :: "string \<Rightarrow> string \<Rightarrow> unit wallet" where
  "stub_wallet tx_hash tx_link =
     \<lparr>on_invoke = (\<lambda>_ _. None),
      on_wait = (\<lambda>_ _. Inr (settled_with tx_hash tx_link)),
      history = []\<rparr>"

text \<open>A wallet stub whose \<open>invoke_contract\<close> always raises the given exception.\<close>

definition failing_wallet :: "py_exception \<Rightarrow> unit wallet" where
  "failing_wallet e =
     \<lparr>on_invoke = (\<lambda>_ _. Some e),
      on_wait = (\<lambda>_ _. Inr (settled_with [] [])),
      history = []\<rparr>"

text \<open>A wallet stub that accepts every invocation and whose \<open>wait\<close> always gives the same outcome.\<close>

definition waiting_wallet :: "py_exception + settled_invocation \<Rightarrow> unit wallet" where
  "waiting_wallet outcome =
     \<lparr>on_invoke = (\<lambda>_ _. None),
      on_wait = (\<lambda>_ _. outcome),
      history = []\<rparr>"

section \<open>Vocabulary of the properties\<close>

text \<open>The wallet raises \<open>e\<close> while \<open>call\<close> is submitted, or while it is waited for.\<close>

definition wallet_raises :: "'abi wallet \<Rightarrow> 'abi invocation \<Rightarrow> py_exception \<Rightarrow> bool" where
  "wallet_raises wallet call e =
     (case on_invoke wallet (history wallet) call of
        Some e' \<Rightarrow> e' = e
      | None \<Rightarrow> on_wait wallet (history wallet @ [Invoked call]) call = Inl e)"

text \<open>The wallet accepts \<open>call\<close> and settles it with \<open>result\<close>.\<close>

definition wallet_settles :: "'abi wallet \<Rightarrow> 'abi invocation \<Rightarrow> settled_invocation \<Rightarrow> bool" where
  "wallet_settles wallet call result =
     (on_invoke wallet (history wallet) call = None \<and>
      on_wait wallet (history wallet @ [Invoked call]) call = Inr result)"

text \<open>An \<open>int\<close> that \<open>str\<close> prints: it has no more digits than the limit.\<close>

definition int_prints :: "int \<Rightarrow> bool" where
  "int_prints i = (\<bar>i\<bar> < 10 ^ int_max_str_digits)"

text \<open>
  Reading \<open>result.transaction.transaction_hash\<close> and then
  \<open>result.transaction.transaction_link\<close> raises \<open>e\<close>: at \<open>.transaction\<close>, at the hash, or
  at the link after the hash was read.
\<close>

definition attribute_raises :: "settled_invocation \<Rightarrow> py_exception \<Rightarrow> bool" where
  "attribute_raises result e =
     (case transaction result of
        Inl e' \<Rightarrow> e' = e
      | Inr tx \<Rightarrow>
          (case transaction_hash tx of
             Inl e' \<Rightarrow> e' = e
           | Inr _ \<Rightarrow> transaction_link tx = Inl e))"

text \<open>What becomes of \<open>e\<close> when it is raised inside a \<open>try\<close> block with the given error prefix.\<close>

definition caught :: "string \<Rightarrow> py_exception \<Rightarrow> py_exception + string" where
  "caught error_prefix e =
     (if is_Exception e
      then (case exc_str e of Inl e' \<Rightarrow> Inl e' | Inr text_of_e \<Rightarrow> Inr (error_prefix @ text_of_e))
      else Inl e)"

text \<open>What a call has added to the wallet's history, and the invocations among it.\<close>

definition new_events :: "'abi wallet \<Rightarrow> 'abi wallet \<Rightarrow> 'abi wallet_event list" where
  "new_events before after = drop (length (history before)) (history after)"

fun invocations :: "'abi wallet_event list \<Rightarrow> 'abi invocation list" where
  "invocations [] = []"
| "invocations (Invoked call # events) = call # invocations events"
| "invocations (Waited call # events) = invocations events"

section \<open>Auxiliary facts\<close>

subsection \<open>Decoding, bit lengths and rounding\<close>

lemma decode_bounds:
  assumes "decode w = Finite sign m e"
  shows "m < 2 ^ 53" and "- 1074 \<le> e" and "e \<le> 971"
proof -
  define b where "b = unat (take_bit 11 (drop_bit 52 w))"
  define f where "f = unat (take_bit 52 w)"
  have f: "f < 4503599627370496"
    using take_bit_nat_less_exp [of 52 "unat w"] by (simp add: f_def unsigned_take_bit_eq)
  have b: "b < 2048"
    using take_bit_nat_less_exp [of 11 "unat (drop_bit 52 w)"] by (simp add: b_def unsigned_take_bit_eq)
  have d: "decode w =
     (if b = 2047 then (if f = 0 then Infinity (bit w 63) else NaN)
      else if b = 0 then Finite (bit w 63) f (- 1074)
      else Finite (bit w 63) (2 ^ 52 + f) (int b - 1075))"
    unfolding decode_def b_def f_def Let_def by (rule refl)
  from assms f b show "m < 2 ^ 53" and "- 1074 \<le> e" and "e \<le> 971"
    unfolding d by (auto split: if_splits)
qed

lemma bit_length_upper: "n < 2 ^ bit_length n"
proof (induction n rule: bit_length.induct)
  case (1 n)
  show ?case
  proof (cases "n = 0")
    case True
    then show ?thesis by (simp add: bit_length.simps)
  next
    case False
    with 1 have "n div 2 < 2 ^ bit_length (n div 2)" by simp
    then have "n < 2 * 2 ^ bit_length (n div 2)" by linarith
    with False show ?thesis by (simp add: bit_length.simps [of n])
  qed
qed

lemma bit_length_lower: "0 < n \<Longrightarrow> 2 ^ (bit_length n - 1) \<le> n"
proof (induction n rule: bit_length.induct)
  case (1 n)
  show ?case
  proof (cases "n div 2 = 0")
    case True
    with 1(2) have "n = 1" by linarith
    then show ?thesis by (simp add: bit_length.simps)
  next
    case False
    with 1 have ih: "2 ^ (bit_length (n div 2) - 1) \<le> n div 2" by simp
    from False have "0 < bit_length (n div 2)" by (simp add: bit_length.simps [of "n div 2"])
    then have "bit_length n - 1 = Suc (bit_length (n div 2) - 1)"
      using 1(2) by (simp add: bit_length.simps [of n])
    with ih show ?thesis by simp
  qed
qed

lemma bit_length_le:
  assumes "n < 2 ^ k"
  shows "bit_length n \<le> k"
proof (rule ccontr)
  assume "\<not> bit_length n \<le> k"
  then have k: "k \<le> bit_length n - 1" and "0 < bit_length n"
    by simp_all
  then have "0 < n"
    by (auto simp: bit_length.simps [of n] split: if_splits)
  then have "2 ^ (bit_length n - 1) \<le> n"
    by (rule bit_length_lower)
  moreover have "(2::nat) ^ k \<le> 2 ^ (bit_length n - 1)"
    using k by (intro power_increasing) simp_all
  ultimately have "2 ^ k \<le> n"
    by (rule order_trans [rotated])
  with assms show False
    by simp
qed

lemma round_half_even_error:
  "2 * \<bar>int (round_half_even n s) * 2 ^ s - int n\<bar> \<le> (if s = 0 then 0 else 2 ^ s)"
proof (cases "s = 0")
  case True
  then show ?thesis by (simp add: round_half_even_def)
next
  case False
  define q where "q = n div 2 ^ s"
  define r where "r = n mod 2 ^ s"
  have "n = q * 2 ^ s + r"
    unfolding q_def r_def by (rule div_mult_mod_eq [symmetric])
  then have "int n = int (q * 2 ^ s + r)"
    by (rule arg_cong)
  then have n: "int n = int q * 2 ^ s + int r"
    by simp
  have "r < 2 ^ s"
    unfolding r_def by simp
  then have "int r < int (2 ^ s)"
    by (simp only: of_nat_less_iff)
  then have r: "int r < 2 ^ s"
    by simp
  define h where "h = (2::nat) ^ (s - 1)"
  have "2 * h = 2 ^ s"
    unfolding h_def using False by (cases s) auto
  then have "int (2 * h) = int (2 ^ s)"
    by (rule arg_cong)
  then have h: "2 * int h = 2 ^ s"
    by simp
  show ?thesis
  proof (cases "h < r \<or> (r = h \<and> odd q)")
    case True
    then have up: "round_half_even n s = q + 1"
      using False by (simp add: round_half_even_def q_def r_def h_def Let_def)
    from True have "int h \<le> int r" by auto
    with h have "2 ^ s \<le> 2 * int r" by linarith
    moreover have "int (q + 1) * 2 ^ s - int n = 2 ^ s - int r"
      unfolding n by (simp add: algebra_simps)
    ultimately show ?thesis
      unfolding up using r False by simp
  next
    case False2: False
    then have down: "round_half_even n s = q"
      using False by (simp add: round_half_even_def q_def r_def h_def Let_def)
    from False2 have "int r \<le> int h" by auto
    with h have "2 * int r \<le> 2 ^ s" by linarith
    moreover have "int q * 2 ^ s - int n = - int r"
      unfolding n by simp
    ultimately show ?thesis
      unfolding down using False by simp
  qed
qed

lemma round_half_even_relative:
  assumes "s = bit_length n - 53"
  shows "\<bar>real (round_half_even n s) * 2 ^ s - real n\<bar> \<le> real n / 2 ^ 53"
proof (cases "s = 0")
  case True
  then show ?thesis by (simp add: round_half_even_def)
next
  case False
  with assms have bl: "bit_length n - 1 = s + 52" and pos: "0 < n"
    by (auto simp: bit_length.simps [of n] split: if_splits)
  from bit_length_lower [OF pos] have "2 ^ (s + 52) \<le> n"
    unfolding bl .
  then have "real (2 ^ (s + 52)) \<le> real n"
    by (simp only: of_nat_le_iff)
  then have low: "2 ^ s * 2 ^ 52 \<le> real n"
    by (simp add: power_add)
  from round_half_even_error [of n s] False
  have "2 * \<bar>int (round_half_even n s) * 2 ^ s - int n\<bar> \<le> 2 ^ s"
    by simp
  then have "real_of_int (2 * \<bar>int (round_half_even n s) * 2 ^ s - int n\<bar>) \<le> real_of_int (2 ^ s)"
    by (simp only: of_int_le_iff)
  then have "2 * \<bar>real (round_half_even n s) * 2 ^ s - real n\<bar> \<le> 2 ^ s"
    by simp
  with low show ?thesis
    by simp
qed

lemma round_half_even_le:
  assumes "n < 2 ^ (s + 53)"
  shows "round_half_even n s \<le> 2 ^ 53"
proof (cases "s = 0")
  case True
  with assms show ?thesis by (simp add: round_half_even_def)
next
  case False
  from assms have "n < 2 ^ 53 * 2 ^ s"
    by (simp add: power_add mult.commute)
  then have "n div 2 ^ s < 2 ^ 53"
    by (rule less_mult_imp_div_less)
  then show ?thesis
    using False by (simp add: round_half_even_def Let_def)
qed

subsection \<open>The product of a price and \<open>10**18\<close>, and its truncation\<close>

lemma ten18: "float_of_int 1000000000000000000 = Inr (Finite False 7812500000000000 7)"
  by (simp add: float_of_int_def round_to_double_def bit_length.simps round_half_even_def)

lemma price_times_ten18:
  "float_times_int x 1000000000000000000 = Inr (float_mul x (Finite False 7812500000000000 7))"
  by (simp add: float_times_int_def ten18 and_then_def)

lemma price_product:
  assumes "- 1074 \<le> e"
  shows "float_mul (Finite sign m e) (Finite False 7812500000000000 7) =
     (let n = m * 7812500000000000;
          s = bit_length n - 53;
          q = round_half_even n s;
          e' = e + 7 + int s
      in if int (bit_length q) + e' > 1024 then Infinity sign else Finite sign q e')"
proof -
  have "nat (max (int (bit_length (m * 7812500000000000)) - 53) (- 1074 - (e + 7))) =
        bit_length (m * 7812500000000000) - 53"
    using assms by (simp add: max_def) arith
  then show ?thesis
    by (simp add: round_to_double_def Let_def)
qed

lemma rounded_product_error:
  assumes p: "float_mul (Finite sign m e) (Finite False 7812500000000000 7) = Finite sign' q e'"
    and e: "- 1074 \<le> e"
  shows "\<bar>valof (Finite sign' q e') - valof (Finite sign m e) * 10 ^ 18\<bar>
           \<le> \<bar>valof (Finite sign m e)\<bar> * 10 ^ 18 / 2 ^ 53"
proof -
  define n where "n = m * 7812500000000000"
  define s where "s = bit_length n - 53"
  from p have sign': "sign' = sign" and q: "q = round_half_even n s" and e': "e' = e + 7 + int s"
    unfolding price_product [OF e] n_def s_def Let_def by (auto split: if_splits)
  have exact: "valof (Finite sign m e) * 10 ^ 18 = (if sign then - 1 else 1) * real n * 2 powi (e + 7)"
    by (simp add: n_def power_int_add)
  have rounded: "valof (Finite sign' q e') = (if sign then - 1 else 1) * (real q * 2 ^ s) * 2 powi (e + 7)"
    by (simp add: sign' e' power_int_add)
  have "valof (Finite sign' q e') - valof (Finite sign m e) * 10 ^ 18 =
        (if sign then - 1 else 1) * ((real q * 2 ^ s - real n) * 2 powi (e + 7))"
    unfolding exact rounded by (simp add: algebra_simps)
  then have "\<bar>valof (Finite sign' q e') - valof (Finite sign m e) * 10 ^ 18\<bar> =
        \<bar>(real q * 2 ^ s - real n) * 2 powi (e + 7)\<bar>"
    by (simp only: abs_mult) simp
  then have "\<bar>valof (Finite sign' q e') - valof (Finite sign m e) * 10 ^ 18\<bar> =
        \<bar>real q * 2 ^ s - real n\<bar> * 2 powi (e + 7)"
    by (simp only: abs_mult) simp
  also have "\<dots> \<le> real n / 2 ^ 53 * 2 powi (e + 7)"
    using round_half_even_relative [OF s_def] unfolding q
    by (intro mult_right_mono) simp_all
  also have "\<dots> = \<bar>valof (Finite sign m e)\<bar> * 10 ^ 18 / 2 ^ 53"
    by (simp add: n_def abs_mult power_int_add)
  finally show ?thesis .
qed

lemma finite_product_operand:
  assumes "float_mul x (Finite False 7812500000000000 7) = Finite sign q e"
  obtains m e0 where "x = Finite sign m e0"
proof (cases x)
  case (Finite s m e0)
  with assms have "s = sign"
    by (auto simp: round_to_double_def Let_def split: if_splits)
  with Finite that show ?thesis by simp
next
  case (Infinity s)
  with assms show ?thesis by simp
next
  case NaN
  with assms show ?thesis by simp
qed

lemma zero_product:
  assumes "round_to_double sign 0 e0 = Finite sign' q e"
  shows "q = 0"
  using assms by (auto simp: round_to_double_def Let_def round_half_even_def bit_length.simps split: if_splits)

lemma product_is_finite:
  assumes d: "decode price = Finite sign m e" and e: "e \<le> 910"
  shows "is_finite (float_mul (decode price) (Finite False 7812500000000000 7))"
proof -
  define n where "n = m * 7812500000000000"
  define s where "s = bit_length n - 53"
  have "m < 2 ^ 53"
    using d by (rule decode_bounds(1))
  then have "m * 7812500000000000 < 2 ^ 53 * 2 ^ 53"
    by (intro mult_strict_mono) simp_all
  then have n: "n < 2 ^ 106"
    by (simp add: n_def)
  then have bl: "bit_length n \<le> 106"
    by (rule bit_length_le)
  then have s: "s \<le> 53"
    by (simp add: s_def)
  have "n < 2 ^ bit_length n"
    by (rule bit_length_upper)
  also have "(2::nat) ^ bit_length n \<le> 2 ^ (s + 53)"
    by (intro power_increasing) (simp_all add: s_def)
  finally have "round_half_even n s \<le> 2 ^ 53"
    by (rule round_half_even_le)
  also have "(2::nat) ^ 53 < 2 ^ 54"
    by simp
  finally have "bit_length (round_half_even n s) \<le> 54"
    by (rule bit_length_le)
  with s e have "\<not> 1024 < int (bit_length (round_half_even n s)) + (e + 7 + int s)"
    by simp
  moreover have "- 1074 \<le> e"
    using d by (rule decode_bounds(2))
  ultimately show ?thesis
    unfolding d price_product [OF \<open>- 1074 \<le> e\<close>] Let_def n_def [symmetric] s_def [symmetric]
    by simp
qed

lemma int_of_float_floor: "int_of_float (Finite False q e) = Inr \<lfloor>valof (Finite False q e)\<rfloor>"
proof (cases "0 \<le> e")
  case True
  then have "real q * 2 powi e = of_int (int q * 2 ^ nat e)"
    by (simp add: power_int_def)
  then show ?thesis
    using True by (simp del: of_int_mult of_int_power)
next
  case False
  then have "real q * 2 powi e = of_int (int q) / of_int (2 ^ nat (- e))"
    by (simp add: power_int_def field_simps)
  then have "\<lfloor>real q * 2 powi e\<rfloor> = int q div 2 ^ nat (- e)"
    by (simp only: floor_divide_of_int_eq)
  then show ?thesis
    using False by simp
qed

lemma int_of_float_ceiling: "int_of_float (Finite True q e) = Inr \<lceil>valof (Finite True q e)\<rceil>"
proof -
  have "valof (Finite True q e) = - valof (Finite False q e)"
    by simp
  then have "\<lceil>valof (Finite True q e)\<rceil> = - \<lfloor>valof (Finite False q e)\<rfloor>"
    by (simp only: ceiling_minus)
  moreover have "int_of_float (Finite True q e) = and_then (int_of_float (Finite False q e)) (\<lambda>i. Inr (- i))"
    by (simp add: and_then_def)
  ultimately show ?thesis
    by (simp add: int_of_float_floor and_then_def del: int_of_float.simps valof.simps)
qed

lemma eth_to_wei_eq:
  "eth_to_wei price = int_of_float (float_mul (decode price) (Finite False 7812500000000000 7))"
  by (simp add: eth_to_wei_def price_times_ten18 and_then_def)

lemma eth_to_wei_succeeds_iff:
  "(\<exists>wei. eth_to_wei price = Inr wei) =
     is_finite (float_mul (decode price) (Finite False 7812500000000000 7))"
  unfolding eth_to_wei_eq
  by (cases "float_mul (decode price) (Finite False 7812500000000000 7)") simp_all

lemma wei_of_nonneg_price:
  assumes nonneg: "float_ge_zero (decode price)"
    and product: "float_mul (decode price) (Finite False 7812500000000000 7) = Finite sign q e"
  shows "eth_to_wei price = Inr \<lfloor>valof (Finite sign q e)\<rfloor>"
    and "\<bar>valof (Finite sign q e) - valof (decode price) * 10 ^ 18\<bar>
           \<le> valof (decode price) * 10 ^ 18 / 2 ^ 53"
proof -
  from product obtain m e0 where d: "decode price = Finite sign m e0"
    by (rule finite_product_operand)
  have e0: "- 1074 \<le> e0"
    using d by (rule decode_bounds(2))
  from nonneg have sign: "m = 0 \<or> \<not> sign"
    by (simp add: d)
  then have v: "\<bar>valof (Finite sign m e0)\<bar> = valof (Finite sign m e0)"
    by auto
  from rounded_product_error [OF product [unfolded d] e0]
  show "\<bar>valof (Finite sign q e) - valof (decode price) * 10 ^ 18\<bar>
           \<le> valof (decode price) * 10 ^ 18 / 2 ^ 53"
    unfolding d v .
  show "eth_to_wei price = Inr \<lfloor>valof (Finite sign q e)\<rfloor>"
  proof (cases sign)
    case False
    then show ?thesis
      unfolding eth_to_wei_eq product by (simp only: int_of_float_floor)
  next
    case True
    with sign have "m = 0" by simp
    with product d have "q = 0" by (auto dest: zero_product)
    then show ?thesis
      unfolding eth_to_wei_eq product by simp
  qed
qed

lemma wei_of_nonpos_price:
  assumes nonpos: "float_le_zero (decode price)"
    and product: "float_mul (decode price) (Finite False 7812500000000000 7) = Finite sign q e"
  shows "eth_to_wei price = Inr \<lceil>valof (Finite sign q e)\<rceil>"
    and "\<lceil>valof (Finite sign q e)\<rceil> \<le> 0"
proof -
  from product obtain m e0 where d: "decode price = Finite sign m e0"
    by (rule finite_product_operand)
  from nonpos have sign: "m = 0 \<or> sign"
    by (simp add: d)
  have q: "q = 0" if "\<not> sign"
  proof -
    from that sign have "m = 0" by simp
    with product d show ?thesis by (auto dest: zero_product)
  qed
  show "eth_to_wei price = Inr \<lceil>valof (Finite sign q e)\<rceil>"
  proof (cases sign)
    case True
    then show ?thesis
      unfolding eth_to_wei_eq product by (simp only: int_of_float_ceiling)
  next
    case False
    then show ?thesis
      unfolding eth_to_wei_eq product using q by simp
  qed
  have "valof (Finite sign q e) \<le> 0"
  proof (cases sign)
    case True
    have "0 \<le> real q * 2 powi e" by simp
    with True show ?thesis by simp
  next
    case False
    with q show ?thesis by simp
  qed
  then show "\<lceil>valof (Finite sign q e)\<rceil> \<le> 0"
    by (simp add: ceiling_le_zero)
qed

subsection \<open>Printing an \<open>int\<close>\<close>

lemma str_int_prints: "int_prints i \<Longrightarrow> str_int i = Inr (decimal i)"
  by (simp add: str_int_def int_prints_def)

lemma str_int_too_long:
  "\<not> int_prints i \<Longrightarrow> str_int i = Inl (builtin_error ''ValueError'' digits_limit_text)"
  by (simp add: str_int_def int_prints_def)

lemma small_int_prints:
  assumes "\<bar>i\<bar> < 100000"
  shows "int_prints i"
proof -
  have "(10::int) ^ 5 \<le> 10 ^ int_max_str_digits"
    by (intro power_increasing) (simp_all add: int_max_str_digits_def)
  with assms show ?thesis
    by (simp add: int_prints_def)
qed

lemma str_int_1: "str_int 1 = Inr ''1''"
  by (simp add: str_int_prints small_int_prints decimal_def str_nat.simps digit_char_def)

lemma str_int_86400: "str_int 86400 = Inr ''86400''"
  by (simp add: str_int_prints small_int_prints decimal_def str_nat.simps digit_char_def)


lemma caught_builtin: "caught error_prefix (builtin_error name message) = Inr (error_prefix @ message)"
  by (simp add: caught_def builtin_error_def)

lemma caught_text:
  "is_Exception e \<Longrightarrow> exc_str e = Inr text_of_e \<Longrightarrow> caught error_prefix e = Inr (error_prefix @ text_of_e)"
  by (simp add: caught_def)

subsection \<open>The wallet\<close>

lemma invoke_and_wait_eq:
  "invoke_and_wait w c =
     (case on_invoke w (history w) c of
        Some e \<Rightarrow> (Inl e, w\<lparr>history := history w @ [Invoked c]\<rparr>)
      | None \<Rightarrow> (on_wait w (history w @ [Invoked c]) c, w\<lparr>history := history w @ [Invoked c, Waited c]\<rparr>))"
  by (simp add: invoke_and_wait_def invoke_contract_def split: option.split)

lemma new_events_append: "new_events w (w\<lparr>history := history w @ es\<rparr>) = es"
  by (simp add: new_events_def)

lemma new_events_same: "new_events w w = []"
  by (simp add: new_events_def)

lemma invoke_and_wait_raises:
  assumes "wallet_raises w c e"
  shows "fst (invoke_and_wait w c) = Inl e"
  using assms by (auto simp: wallet_raises_def invoke_and_wait_eq split: option.splits)

lemma invoke_and_wait_settles:
  assumes "wallet_settles w c r"
  shows "invoke_and_wait w c = (Inr r, w\<lparr>history := history w @ [Invoked c, Waited c]\<rparr>)"
  using assms by (simp add: wallet_settles_def invoke_and_wait_eq)

lemma invoke_and_wait_events:
  "new_events w (snd (invoke_and_wait w c)) =
     Invoked c # (if on_invoke w (history w) c = None then [Waited c] else [])"
  by (simp add: invoke_and_wait_eq new_events_append split: option.split)

lemma invoke_and_wait_invocations:
  "invocations (new_events w (snd (invoke_and_wait w c))) = [c]"
  by (simp add: invoke_and_wait_events)

lemma wallet_raises_iff:
  "wallet_raises w c e =
     (on_invoke w (history w) c = Some e \<or>
      on_invoke w (history w) c = None \<and> on_wait w (history w @ [Invoked c]) c = Inl e)"
  by (auto simp: wallet_raises_def split: option.splits)

lemma failing_wallet_raises: "wallet_raises (failing_wallet e) call e"
  by (simp add: wallet_raises_def failing_wallet_def)

lemma waiting_wallet_raises: "wallet_raises (waiting_wallet (Inl e)) call e"
  by (simp add: wallet_raises_def waiting_wallet_def)

lemma waiting_wallet_settles: "wallet_settles (waiting_wallet (Inr r)) call r"
  by (simp add: wallet_settles_def waiting_wallet_def)

lemma stub_wallet_settles: "wallet_settles (stub_wallet tx_hash tx_link) call (settled_with tx_hash tx_link)"
  by (simp add: wallet_settles_def stub_wallet_def)

subsection \<open>The tools\<close>

lemma attribute_raises_iff:
  "attribute_raises r e =
     (transaction r = Inl e \<or>
      (\<exists>tx. transaction r = Inr tx \<and>
         (transaction_hash tx = Inl e \<or>
          (\<exists>tx_hash. transaction_hash tx = Inr tx_hash \<and> transaction_link tx = Inl e))))"
  by (auto simp: attribute_raises_def split: sum.splits)

lemma attribute_raises_reads:
  assumes "attribute_raises r e"
  shows "read_transaction_hash r = Inl e \<or>
         (\<exists>tx_hash. read_transaction_hash r = Inr tx_hash \<and> read_transaction_link r = Inl e)"
  using assms
  by (auto simp: attribute_raises_def read_transaction_hash_def read_transaction_link_def and_then_def
      split: sum.splits)

lemma start_message_raises:
  assumes "attribute_raises r e"
  shows "start_message addr t price d r =
     Inl (if int_prints t \<and> int_prints d then e else builtin_error ''ValueError'' digits_limit_text)"
proof (cases "int_prints t")
  case t: True
  show ?thesis
  proof (cases "int_prints d")
    case True
    with t attribute_raises_reads [OF assms] show ?thesis
      by (auto simp: start_message_def str_int_prints and_then_def)
  next
    case False
    with t show ?thesis
      by (simp add: start_message_def str_int_prints str_int_too_long and_then_def)
  qed
next
  case False
  then show ?thesis
    by (simp add: start_message_def str_int_too_long and_then_def)
qed

lemma bid_message_raises:
  assumes "attribute_raises r e"
  shows "bid_message t amount r =
     Inl (if int_prints t then e else builtin_error ''ValueError'' digits_limit_text)"
proof (cases "int_prints t")
  case True
  with attribute_raises_reads [OF assms] show ?thesis
    by (auto simp: bid_message_def str_int_prints and_then_def)
next
  case False
  then show ?thesis
    by (simp add: bid_message_def str_int_too_long and_then_def)
qed

lemma finalize_message_raises:
  assumes "attribute_raises r e"
  shows "finalize_message t r =
     Inl (if int_prints t then e else builtin_error ''ValueError'' digits_limit_text)"
proof (cases "int_prints t")
  case True
  with attribute_raises_reads [OF assms] show ?thesis
    by (auto simp: finalize_message_def str_int_prints and_then_def)
next
  case False
  then show ?thesis
    by (simp add: finalize_message_def str_int_too_long and_then_def)
qed

lemma start_message_settled_with:
  "start_message addr t price d (settled_with tx_hash tx_link) =
     and_then (str_int t) (\<lambda>token_text.
     and_then (str_int d) (\<lambda>duration_text.
     Inr (''Auction created successfully for token ID '' @ token_text @ ''.'' @ newline @
          ''NFT Contract: '' @ addr @ newline @
          ''Starting price: '' @ str_float price @ '' ETH'' @ newline @
          ''Duration: '' @ duration_text @ '' seconds'' @ newline @
          ''Transaction hash: '' @ tx_hash @ newline @
          ''Transaction link: '' @ tx_link)))"
  by (simp add: start_message_def settled_with_def read_transaction_hash_def
      read_transaction_link_def and_then_def)





lemma start_events:
  "new_events w (snd (start_nft_auction abi w addr t price d)) =
     (case eth_to_wei price of
        Inl e \<Rightarrow> []
      | Inr wei \<Rightarrow> new_events w (snd (invoke_and_wait w (start_invocation abi addr t wei d))))"
  by (simp add: start_nft_auction_def start_nft_auction_try_def new_events_same
      split: sum.split prod.split)

lemma bid_events:
  "new_events w (snd (bid_on_nft abi w t amount)) =
     (case eth_to_wei amount of
        Inl e \<Rightarrow> []
      | Inr wei \<Rightarrow> new_events w (snd (invoke_and_wait w (bid_invocation abi t wei))))"
  by (simp add: bid_on_nft_def bid_on_nft_try_def new_events_same
      split: sum.split prod.split)

lemma finalize_events:
  "new_events w (snd (finalize_nft_auction abi w t)) =
     new_events w (snd (invoke_and_wait w (finalize_invocation abi t)))"
  by (simp add: finalize_nft_auction_def finalize_nft_auction_try_def
      split: sum.split prod.split)

lemma start_invocations:
  assumes "eth_to_wei price = Inr wei"
  shows "invocations (new_events w (snd (start_nft_auction abi w addr t price d))) =
     [start_invocation abi addr t wei d]"
  by (simp add: start_events assms invoke_and_wait_invocations)

lemma caught_eq:
  "(if is_Exception e then and_then (exc_str e) (\<lambda>text_of_e. Inr (error_prefix @ text_of_e)) else Inl e) =
     caught error_prefix e"
  by (simp add: caught_def and_then_def)

lemma start_handler:
  "fst (start_nft_auction abi w addr t price d) =
     (case fst (start_nft_auction_try abi w addr t price d) of
        Inl e \<Rightarrow> caught ''Error creating auction: '' e
      | Inr message \<Rightarrow> Inr message)"
proof (cases "start_nft_auction_try abi w addr t price d")
  case (Pair outcome w1)
  then show ?thesis
    by (cases outcome) (simp_all add: start_nft_auction_def caught_eq)
qed

lemma start_try:
  "fst (start_nft_auction_try abi w addr t price d) =
     (case eth_to_wei price of
        Inl e \<Rightarrow> Inl e
      | Inr wei \<Rightarrow>
          and_then (fst (invoke_and_wait w (start_invocation abi addr t wei d)))
            (start_message addr t price d))"
proof (cases "eth_to_wei price")
  case (Inl e)
  then show ?thesis
    by (simp add: start_nft_auction_try_def)
next
  case (Inr wei)
  show ?thesis
  proof (cases "invoke_and_wait w (start_invocation abi addr t wei d)")
    case (Pair outcome w1)
    with Inr show ?thesis
      by (cases outcome) (simp_all add: start_nft_auction_try_def and_then_def)
  qed
qed

lemma start_result:
  "fst (start_nft_auction abi w addr t price d) =
     (case eth_to_wei price of
        Inl e \<Rightarrow> caught ''Error creating auction: '' e
      | Inr wei \<Rightarrow>
          (case and_then (fst (invoke_and_wait w (start_invocation abi addr t wei d)))
                  (start_message addr t price d) of
             Inl e \<Rightarrow> caught ''Error creating auction: '' e
           | Inr message \<Rightarrow> Inr message))"
  unfolding start_handler start_try by (cases "eth_to_wei price") simp_all

lemma bid_handler:
  "fst (bid_on_nft abi w t amount) =
     (case fst (bid_on_nft_try abi w t amount) of
        Inl e \<Rightarrow> caught ''Error placing bid: '' e
      | Inr message \<Rightarrow> Inr message)"
proof (cases "bid_on_nft_try abi w t amount")
  case (Pair outcome w1)
  then show ?thesis
    by (cases outcome) (simp_all add: bid_on_nft_def caught_eq)
qed

lemma bid_try:
  "fst (bid_on_nft_try abi w t amount) =
     (case eth_to_wei amount of
        Inl e \<Rightarrow> Inl e
      | Inr wei \<Rightarrow> and_then (fst (invoke_and_wait w (bid_invocation abi t wei))) (bid_message t amount))"
proof (cases "eth_to_wei amount")
  case (Inl e)
  then show ?thesis
    by (simp add: bid_on_nft_try_def)
next
  case (Inr wei)
  show ?thesis
  proof (cases "invoke_and_wait w (bid_invocation abi t wei)")
    case (Pair outcome w1)
    with Inr show ?thesis
      by (cases outcome) (simp_all add: bid_on_nft_try_def and_then_def)
  qed
qed

lemma bid_result:
  "fst (bid_on_nft abi w t amount) =
     (case eth_to_wei amount of
        Inl e \<Rightarrow> caught ''Error placing bid: '' e
      | Inr wei \<Rightarrow>
          (case and_then (fst (invoke_and_wait w (bid_invocation abi t wei))) (bid_message t amount) of
             Inl e \<Rightarrow> caught ''Error placing bid: '' e
           | Inr message \<Rightarrow> Inr message))"
  unfolding bid_handler bid_try by (cases "eth_to_wei amount") simp_all

lemma finalize_handler:
  "fst (finalize_nft_auction abi w t) =
     (case fst (finalize_nft_auction_try abi w t) of
        Inl e \<Rightarrow> caught ''Error finalizing auction: '' e
      | Inr message \<Rightarrow> Inr message)"
proof (cases "finalize_nft_auction_try abi w t")
  case (Pair outcome w1)
  then show ?thesis
    by (cases outcome) (simp_all add: finalize_nft_auction_def caught_eq)
qed

lemma finalize_try:
  "fst (finalize_nft_auction_try abi w t) =
     and_then (fst (invoke_and_wait w (finalize_invocation abi t))) (finalize_message t)"
proof (cases "invoke_and_wait w (finalize_invocation abi t)")
  case (Pair outcome w1)
  then show ?thesis
    by (cases outcome) (simp_all add: finalize_nft_auction_try_def and_then_def)
qed

lemma finalize_result:
  "fst (finalize_nft_auction abi w t) =
     (case and_then (fst (invoke_and_wait w (finalize_invocation abi t))) (finalize_message t) of
        Inl e \<Rightarrow> caught ''Error finalizing auction: '' e
      | Inr message \<Rightarrow> Inr message)"
  unfolding finalize_handler finalize_try ..

lemma eth_to_wei_raises_builtin:
  assumes "eth_to_wei price = Inl e"
  shows "\<exists>name message. e = builtin_error name message"
  using assms unfolding eth_to_wei_eq
  by (cases "float_mul (decode price) (Finite False 7812500000000000 7)") auto

lemma start_no_wei:
  assumes "eth_to_wei price = Inl e"
  shows "start_nft_auction abi w addr t price d = (caught ''Error creating auction: '' e, w)"
  by (simp add: start_nft_auction_def start_nft_auction_try_def assms caught_eq)

lemma start_wallet_raises:
  assumes "eth_to_wei price = Inr wei" and "wallet_raises w (start_invocation abi addr t wei d) e"
  shows "fst (start_nft_auction abi w addr t price d) = caught ''Error creating auction: '' e"
  by (simp add: start_result assms(1) invoke_and_wait_raises [OF assms(2)] and_then_def)

lemma bid_wallet_raises:
  assumes "eth_to_wei amount = Inr wei" and "wallet_raises w (bid_invocation abi t wei) e"
  shows "fst (bid_on_nft abi w t amount) = caught ''Error placing bid: '' e"
  by (simp add: bid_result assms(1) invoke_and_wait_raises [OF assms(2)] and_then_def)

lemma finalize_wallet_raises:
  assumes "wallet_raises w (finalize_invocation abi t) e"
  shows "fst (finalize_nft_auction abi w t) = caught ''Error finalizing auction: '' e"
  by (simp add: finalize_result invoke_and_wait_raises [OF assms] and_then_def)

lemma start_attribute_raises:
  assumes "eth_to_wei price = Inr wei" and "wallet_settles w (start_invocation abi addr t wei d) r"
    and "attribute_raises r e"
  shows "fst (start_nft_auction abi w addr t price d) =
     caught ''Error creating auction: ''
       (if int_prints t \<and> int_prints d then e else builtin_error ''ValueError'' digits_limit_text)"
  by (simp add: start_result assms(1) invoke_and_wait_settles [OF assms(2)]
      start_message_raises [OF assms(3)] and_then_def)

lemma bid_attribute_raises:
  assumes "eth_to_wei amount = Inr wei" and "wallet_settles w (bid_invocation abi t wei) r"
    and "attribute_raises r e"
  shows "fst (bid_on_nft abi w t amount) =
     caught ''Error placing bid: ''
       (if int_prints t then e else builtin_error ''ValueError'' digits_limit_text)"
  by (simp add: bid_result assms(1) invoke_and_wait_settles [OF assms(2)]
      bid_message_raises [OF assms(3)] and_then_def)

lemma finalize_attribute_raises:
  assumes "wallet_settles w (finalize_invocation abi t) r" and "attribute_raises r e"
  shows "fst (finalize_nft_auction abi w t) =
     caught ''Error finalizing auction: ''
       (if int_prints t then e else builtin_error ''ValueError'' digits_limit_text)"
  by (simp add: finalize_result invoke_and_wait_settles [OF assms(1)]
      finalize_message_raises [OF assms(2)] and_then_def)

subsection \<open>Particular prices and numbers\<close>

lemma half_eth: "decode 0x3FE0000000000000 = Finite False 4503599627370496 (- 53)"
  by (simp add: decode_def)

lemma half_eth_wei: "eth_to_wei 0x3FE0000000000000 = Inr 500000000000000000"
  by (simp add: eth_to_wei_eq half_eth round_to_double_def bit_length.simps round_half_even_def)

lemma tenth_eth: "decode 0x3FB999999999999A = Finite False 7205759403792794 (- 56)"
  by (simp add: decode_def)

lemma tenth_eth_wei: "eth_to_wei 0x3FB999999999999A = Inr 100000000000000000"
  by (simp add: eth_to_wei_eq tenth_eth round_to_double_def bit_length.simps round_half_even_def)

lemma tenth_is_nearest: "\<bar>valof (decode 0x3FB999999999999A) - 1 / 10\<bar> \<le> 1 / 2 ^ 57"
  by (simp add: tenth_eth power_int_minus field_simps)

lemma price_435: "decode 0x4011666666666666 = Finite False 4897664594765414 (- 50)"
  by (simp add: decode_def)

lemma product_435:
  "float_mul (decode 0x4011666666666666) (Finite False 7812500000000000 7) =
     Finite False 8496093749999999 9"
  by (simp add: price_435 round_to_double_def bit_length.simps round_half_even_def)

lemma wei_435: "eth_to_wei 0x4011666666666666 = Inr 4349999999999999488"
  by (simp add: eth_to_wei_eq product_435)

lemma floor_435: "\<lfloor>valof (decode 0x4011666666666666) * 10 ^ 18\<rfloor> = 4349999999999999644"
proof -
  have "valof (decode 0x4011666666666666) * 10 ^ 18 =
        of_int 4897664594765414000000000000000000 / of_int 1125899906842624"
    by (simp add: price_435 power_int_minus)
  then have "\<lfloor>valof (decode 0x4011666666666666) * 10 ^ 18\<rfloor> =
        4897664594765414000000000000000000 div 1125899906842624"
    by (simp only: floor_divide_of_int_eq)
  then show ?thesis
    by simp
qed

lemma huge_eth: "decode 0x7E37E43C8800759C = Finite False 6724873095247260 944"
  by (simp add: decode_def)

lemma huge_eth_wei:
  "eth_to_wei 0x7E37E43C8800759C =
     Inl (builtin_error ''OverflowError'' ''cannot convert float infinity to integer'')"
  by (simp add: eth_to_wei_eq huge_eth round_to_double_def bit_length.simps round_half_even_def)

lemma neg_huge_eth: "decode 0xFE37E43C8800759C = Finite True 6724873095247260 944"
  by (simp add: decode_def)

lemma neg_huge_eth_wei:
  "eth_to_wei 0xFE37E43C8800759C =
     Inl (builtin_error ''OverflowError'' ''cannot convert float infinity to integer'')"
  by (simp add: eth_to_wei_eq neg_huge_eth round_to_double_def bit_length.simps round_half_even_def)

lemma neg_half_eth: "decode 0xBFE0000000000000 = Finite True 4503599627370496 (- 53)"
  by (simp add: decode_def)

lemma product_neg_half:
  "float_mul (decode 0xBFE0000000000000) (Finite False 7812500000000000 7) =
     Finite True 7812500000000000 6"
  by (simp add: neg_half_eth round_to_double_def bit_length.simps round_half_even_def)

lemma canonical_tenth: "canonical 7205759403792794 (- 56) = (7205759403792794, - 56)"
  by (simp add: canonical_def bit_length.simps)

lemma decimal_point_tenth: "decimal_point 7205759403792794 (- 56) = 0"
  by (simp add: decimal_point_def str_nat.simps)

lemma digits_candidate_tenth: "digits_candidate 7205759403792794 (- 56) (Suc 0) = Some (1, - 1)"
  by (simp add: digits_candidate_def decimal_point_tenth Let_def)

lemma shortest_from_tenth: "shortest_from 7205759403792794 (- 56) (Suc 0) = (1, - 1)"
  by (simp add: shortest_from.simps digits_candidate_tenth)

lemma shortest_digits_tenth: "shortest_digits 7205759403792794 (- 56) = (''1'', 0)"
  by (simp add: shortest_digits_def canonical_tenth shortest_from_tenth strip_zeros.simps
      str_nat.simps digit_char_def)

lemma str_float_tenth: "str_float 0x3FB999999999999A = ''0.1''"
  by (simp add: str_float_def tenth_eth shortest_digits_tenth format_repr_def)

section \<open>The claims\<close>

text \<open>
  C1 as stated does not hold. The starting price \<open>4.35\<close> is the double \<open>0x4011666666666666\<close>,
  which is not negative. \<open>start_nft_auction\<close> submits \<open>startingPrice = 4349999999999999488\<close> for
  it, while the floor of the price times \<open>10^18\<close> is \<open>4349999999999999644\<close>: 156 wei are lost,
  because \<open>starting_price * 10**18\<close> is a float product, rounded to the nearest double (they
  are 512 apart here) before \<open>int\<close> truncates it.
\<close>

theorem start_price_floor_counterexample:
  "float_ge_zero (decode 0x4011666666666666) \<and>
   invocations (new_events (stub_wallet ''0xabc'' ''link'')
     (snd (start_nft_auction () (stub_wallet ''0xabc'' ''link'')
             ''0x036CbD53842c5426634e7929541eC2318f3dCF7e'' 1 0x4011666666666666 86400))) =
     [\<lparr>inv_contract_address = AUCTION_CONTRACT_ADDRESS,
       inv_method = ''createAuction'',
       inv_args = [(''nftContract'', PyStr ''0x036CbD53842c5426634e7929541eC2318f3dCF7e''),
                   (''tokenId'', PyInt 1),
                   (''startingPrice'', PyInt 4349999999999999488),
                   (''duration'', PyInt 86400)],
       inv_abi = (),
       inv_value = None\<rparr>] \<and>
   \<lfloor>valof (decode 0x4011666666666666) * 10 ^ 18\<rfloor> = 4349999999999999644 \<and>
   \<bar>valof (decode 0x4011666666666666) - 435 / 100\<bar> \<le> 1 / 2 ^ 51"
proof -
  have "float_ge_zero (decode 0x4011666666666666)"
    by (simp add: price_435)
  moreover have "\<bar>valof (decode 0x4011666666666666) - 435 / 100\<bar> \<le> 1 / 2 ^ 51"
    by (simp add: price_435 power_int_minus field_simps)
  moreover note start_invocations [OF wei_435] floor_435
  ultimately show ?thesis
    by (simp add: start_invocation_def)
qed

text \<open>
  C1, amended. For every starting price that is not negative and whose float product with
  \<open>10**18\<close> is finite (it is for every finite price below \<open>2^963\<close>, see
  \<open>product_is_finite\<close>), the \<open>startingPrice\<close> argument of the invocation that
  \<open>start_nft_auction\<close> submits is that product truncated to an integer, and the product is
  within a relative error of \<open>2^-53\<close> of the price times \<open>10^18\<close>. So the wei value is
  less than \<open>1 + price * 10^18 / 2^53\<close> away from the exact one, but need not be its floor.
\<close>

theorem start_price_is_truncated_double_product:
  assumes nonneg: "float_ge_zero (decode starting_price)"
    and product: "float_times_int (decode starting_price) (10 ^ 18) = Inr (Finite sign q e)"
  shows "invocations (new_events wallet
           (snd (start_nft_auction AUCTION_ABI wallet nft_contract_address token_id starting_price duration))) =
           [\<lparr>inv_contract_address = AUCTION_CONTRACT_ADDRESS,
             inv_method = ''createAuction'',
             inv_args = [(''nftContract'', PyStr nft_contract_address),
                         (''tokenId'', PyInt token_id),
                         (''startingPrice'', PyInt \<lfloor>valof (Finite sign q e)\<rfloor>),
                         (''duration'', PyInt duration)],
             inv_abi = AUCTION_ABI,
             inv_value = None\<rparr>] \<and>
         \<bar>valof (Finite sign q e) - valof (decode starting_price) * 10 ^ 18\<bar>
           \<le> valof (decode starting_price) * 10 ^ 18 / 2 ^ 53"
proof -
  from product have p: "float_mul (decode starting_price) (Finite False 7812500000000000 7) = Finite sign q e"
    by (simp add: price_times_ten18)
  note wei = wei_of_nonneg_price [OF nonneg p]
  have "invocations (new_events wallet
          (snd (start_nft_auction AUCTION_ABI wallet nft_contract_address token_id starting_price duration))) =
        [start_invocation AUCTION_ABI nft_contract_address token_id \<lfloor>valof (Finite sign q e)\<rfloor> duration]"
    using wei(1) by (rule start_invocations)
  with wei(2) show ?thesis
    by (simp add: start_invocation_def del: valof.simps)
qed

text \<open>C1, amended, at the starting price \<open>4.35\<close>.\<close>

theorem start_price_is_truncated_double_product_witness:
  "float_ge_zero (decode 0x4011666666666666) \<and>
   float_times_int (decode 0x4011666666666666) (10 ^ 18) = Inr (Finite False 8496093749999999 9) \<and>
   invocations (new_events (stub_wallet ''0xabc'' ''link'')
     (snd (start_nft_auction () (stub_wallet ''0xabc'' ''link'')
             ''0x036CbD53842c5426634e7929541eC2318f3dCF7e'' 1 0x4011666666666666 86400))) =
     [\<lparr>inv_contract_address = AUCTION_CONTRACT_ADDRESS,
       inv_method = ''createAuction'',
       inv_args = [(''nftContract'', PyStr ''0x036CbD53842c5426634e7929541eC2318f3dCF7e''),
                   (''tokenId'', PyInt 1),
                   (''startingPrice'', PyInt 4349999999999999488),
                   (''duration'', PyInt 86400)],
       inv_abi = (),
       inv_value = None\<rparr>] \<and>
   \<bar>4349999999999999488 - valof (decode 0x4011666666666666) * 10 ^ 18\<bar>
     \<le> valof (decode 0x4011666666666666) * 10 ^ 18 / 2 ^ 53"
proof -
  have nonneg: "float_ge_zero (decode 0x4011666666666666)"
    by (simp add: price_435)
  have product: "float_times_int (decode 0x4011666666666666) (10 ^ 18) = Inr (Finite False 8496093749999999 9)"
    by (simp add: price_times_ten18 product_435)
  have "valof (Finite False 8496093749999999 9) = 4349999999999999488"
    by simp
  with start_price_is_truncated_double_product [OF nonneg product,
         where wallet = "stub_wallet ''0xabc'' ''link''" and AUCTION_ABI = "()" and token_id = 1
           and duration = 86400 and nft_contract_address = "''0x036CbD53842c5426634e7929541eC2318f3dCF7e''"]
       nonneg product
  show ?thesis
    by simp
qed

text \<open>
  C2 as stated does not hold for everything a wallet can raise. \<open>except Exception\<close> does not
  take what is not an instance of \<open>Exception\<close>: a \<open>SystemExit\<close> raised by
  \<open>invoke_contract\<close> and a \<open>KeyboardInterrupt\<close> raised by \<open>wait\<close> go through to the caller.
  And when \<open>str(e)\<close> raises inside the handler, what it raises goes through.
\<close>

theorem wallet_exception_propagates_counterexample:
  "fst (start_nft_auction () (failing_wallet (PyException ''SystemExit'' False (Inr ''1'')))
          ''0x036CbD53842c5426634e7929541eC2318f3dCF7e'' 1 0x3FB999999999999A 86400) =
     Inl (PyException ''SystemExit'' False (Inr ''1'')) \<and>
   fst (bid_on_nft () (waiting_wallet (Inl (PyException ''KeyboardInterrupt'' False (Inr [])))) 1
          0x3FE0000000000000) =
     Inl (PyException ''KeyboardInterrupt'' False (Inr [])) \<and>
   fst (finalize_nft_auction ()
          (failing_wallet (PyException ''ApiError'' True (Inl (builtin_error ''KeyError'' ''message'')))) 1) =
     Inl (builtin_error ''KeyError'' ''message'')"
  by (simp add: start_wallet_raises [OF tenth_eth_wei failing_wallet_raises]
      bid_wallet_raises [OF half_eth_wei waiting_wallet_raises]
      finalize_wallet_raises [OF failing_wallet_raises] caught_def)

text \<open>
  C2, amended. Whenever the wallet raises \<open>e\<close> while the invocation is submitted or waited
  for, and \<open>e\<close> is an instance of \<open>Exception\<close> whose \<open>str(e)\<close> returns a text,
  \<open>start_nft_auction\<close> returns \<open>Error creating auction: \<close> followed by that text,
  \<open>bid_on_nft\<close> returns \<open>Error placing bid: \<close> followed by it, and \<open>finalize_nft_auction\<close>
  returns \<open>Error finalizing auction: \<close> followed by it; the exception does not reach the
  caller. What is not an instance of \<open>Exception\<close> reaches the caller, and so does what
  \<open>str(e)\<close> raises.
\<close>

theorem wallet_exception_becomes_error_text:
  "wallet_raises wallet call e =
     (on_invoke wallet (history wallet) call = Some e \<or>
      on_invoke wallet (history wallet) call = None \<and>
      on_wait wallet (history wallet @ [Invoked call]) call = Inl e) \<and>
   (\<forall>wei. eth_to_wei starting_price = Inr wei \<and>
      wallet_raises wallet (start_invocation AUCTION_ABI nft_contract_address token_id wei duration) e \<longrightarrow>
      fst (start_nft_auction AUCTION_ABI wallet nft_contract_address token_id starting_price duration) =
        (if is_Exception e
         then (case exc_str e of
                 Inl e' \<Rightarrow> Inl e'
               | Inr text_of_e \<Rightarrow> Inr (''Error creating auction: '' @ text_of_e))
         else Inl e)) \<and>
   (\<forall>wei. eth_to_wei bid_amount = Inr wei \<and>
      wallet_raises wallet (bid_invocation AUCTION_ABI token_id wei) e \<longrightarrow>
      fst (bid_on_nft AUCTION_ABI wallet token_id bid_amount) =
        (if is_Exception e
         then (case exc_str e of
                 Inl e' \<Rightarrow> Inl e'
               | Inr text_of_e \<Rightarrow> Inr (''Error placing bid: '' @ text_of_e))
         else Inl e)) \<and>
   (wallet_raises wallet (finalize_invocation AUCTION_ABI token_id) e \<longrightarrow>
      fst (finalize_nft_auction AUCTION_ABI wallet token_id) =
        (if is_Exception e
         then (case exc_str e of
                 Inl e' \<Rightarrow> Inl e'
               | Inr text_of_e \<Rightarrow> Inr (''Error finalizing auction: '' @ text_of_e))
         else Inl e))"
proof (intro conjI allI impI; (elim conjE)?)
  show "wallet_raises wallet call e =
     (on_invoke wallet (history wallet) call = Some e \<or>
      on_invoke wallet (history wallet) call = None \<and>
      on_wait wallet (history wallet @ [Invoked call]) call = Inl e)"
    by (rule wallet_raises_iff)
next
  fix wei
  assume "eth_to_wei starting_price = Inr wei"
    and "wallet_raises wallet (start_invocation AUCTION_ABI nft_contract_address token_id wei duration) e"
  then show "fst (start_nft_auction AUCTION_ABI wallet nft_contract_address token_id starting_price duration) =
        (if is_Exception e
         then (case exc_str e of
                 Inl e' \<Rightarrow> Inl e'
               | Inr text_of_e \<Rightarrow> Inr (''Error creating auction: '' @ text_of_e))
         else Inl e)"
    unfolding caught_def [symmetric] by (rule start_wallet_raises)
next
  fix wei
  assume "eth_to_wei bid_amount = Inr wei"
    and "wallet_raises wallet (bid_invocation AUCTION_ABI token_id wei) e"
  then show "fst (bid_on_nft AUCTION_ABI wallet token_id bid_amount) =
        (if is_Exception e
         then (case exc_str e of
                 Inl e' \<Rightarrow> Inl e'
               | Inr text_of_e \<Rightarrow> Inr (''Error placing bid: '' @ text_of_e))
         else Inl e)"
    unfolding caught_def [symmetric] by (rule bid_wallet_raises)
next
  assume "wallet_raises wallet (finalize_invocation AUCTION_ABI token_id) e"
  then show "fst (finalize_nft_auction AUCTION_ABI wallet token_id) =
        (if is_Exception e
         then (case exc_str e of
                 Inl e' \<Rightarrow> Inl e'
               | Inr text_of_e \<Rightarrow> Inr (''Error finalizing auction: '' @ text_of_e))
         else Inl e)"
    unfolding caught_def [symmetric] by (rule finalize_wallet_raises)
qed

text \<open>
  C2, amended, at a wallet that refuses the submission with \<open>insufficient funds\<close> and at one
  whose \<open>wait\<close> raises \<open>execution reverted\<close>.
\<close>

theorem wallet_exception_becomes_error_text_witness:
  "fst (start_nft_auction () (failing_wallet (PyException ''Exception'' True (Inr ''insufficient funds'')))
          ''0x036CbD53842c5426634e7929541eC2318f3dCF7e'' 1 0x3FB999999999999A 86400) =
     Inr ''Error creating auction: insufficient funds'' \<and>
   fst (bid_on_nft () (waiting_wallet (Inl (PyException ''Exception'' True (Inr ''execution reverted'')))) 1
          0x3FE0000000000000) =
     Inr ''Error placing bid: execution reverted'' \<and>
   fst (finalize_nft_auction () (failing_wallet (PyException ''Exception'' True (Inr ''insufficient funds''))) 1) =
     Inr ''Error finalizing auction: insufficient funds'' \<and>
   fst (finalize_nft_auction ()
          (waiting_wallet (Inl (PyException ''Exception'' True (Inr ''execution reverted'')))) 1) =
     Inr ''Error finalizing auction: execution reverted''"
  using wallet_exception_becomes_error_text
          [where wallet = "failing_wallet (PyException ''Exception'' True (Inr ''insufficient funds''))"
             and e = "PyException ''Exception'' True (Inr ''insufficient funds'')"
             and AUCTION_ABI = "()" and token_id = 1 and duration = 86400
             and nft_contract_address = "''0x036CbD53842c5426634e7929541eC2318f3dCF7e''"
             and starting_price = "0x3FB999999999999A" and bid_amount = "0x3FE0000000000000"]
        wallet_exception_becomes_error_text
          [where wallet = "waiting_wallet (Inl (PyException ''Exception'' True (Inr ''execution reverted'')))"
             and e = "PyException ''Exception'' True (Inr ''execution reverted'')"
             and AUCTION_ABI = "()" and token_id = 1 and duration = 86400
             and nft_contract_address = "''0x036CbD53842c5426634e7929541eC2318f3dCF7e''"
             and starting_price = "0x3FB999999999999A" and bid_amount = "0x3FE0000000000000"]
  by (simp add: tenth_eth_wei half_eth_wei failing_wallet_raises waiting_wallet_raises)

text \<open>
  C3. \<open>bid_on_nft\<close> with token id 1 and bid amount \<open>0.5\<close> (the double \<open>0x3FE0000000000000\<close>)
  submits one invocation, with method \<open>bid\<close> and the value \<open>500000000000000000\<close> attached; its
  argument mapping holds the token id only.
\<close>

theorem bid_half_eth_attaches_value:
  "invocations (new_events wallet (snd (bid_on_nft AUCTION_ABI wallet 1 0x3FE0000000000000))) =
     [\<lparr>inv_contract_address = AUCTION_CONTRACT_ADDRESS,
       inv_method = ''bid'',
       inv_args = [(''tokenId'', PyInt 1)],
       inv_abi = AUCTION_ABI,
       inv_value = Some 500000000000000000\<rparr>] \<and>
   valof (decode 0x3FE0000000000000) = 1 / 2"
proof -
  have "invocations (new_events wallet (snd (bid_on_nft AUCTION_ABI wallet 1 0x3FE0000000000000))) =
        [bid_invocation AUCTION_ABI 1 500000000000000000]"
    by (simp only: bid_events half_eth_wei sum.case invoke_and_wait_invocations)
  moreover have "valof (decode 0x3FE0000000000000) = 1 / 2"
    by (simp add: half_eth power_int_minus)
  ultimately show ?thesis
    by (simp add: bid_invocation_def)
qed

text \<open>C3, at the stub wallet.\<close>

theorem bid_half_eth_attaches_value_witness:
  "invocations (new_events (stub_wallet ''0xabc'' ''link'')
     (snd (bid_on_nft () (stub_wallet ''0xabc'' ''link'') 1 0x3FE0000000000000))) =
     [\<lparr>inv_contract_address = AUCTION_CONTRACT_ADDRESS,
       inv_method = ''bid'',
       inv_args = [(''tokenId'', PyInt 1)],
       inv_abi = (),
       inv_value = Some 500000000000000000\<rparr>]"
  using bid_half_eth_attaches_value [where wallet = "stub_wallet ''0xabc'' ''link''" and AUCTION_ABI = "()"]
  by simp

text \<open>
  C4 as stated does not hold for every input. For the starting price \<open>1e300\<close> (the double
  \<open>0x7E37E43C8800759C\<close>) the float product with \<open>10**18\<close> is an infinity, \<open>int\<close> raises
  \<open>OverflowError\<close> inside the \<open>try\<close> block, and \<open>start_nft_auction\<close> submits no invocation
  at all: it returns the error text.
\<close>

theorem start_overflow_submits_nothing_counterexample:
  "invocations (new_events (stub_wallet ''0xabc'' ''link'')
     (snd (start_nft_auction () (stub_wallet ''0xabc'' ''link'')
             ''0x036CbD53842c5426634e7929541eC2318f3dCF7e'' 1 0x7E37E43C8800759C 86400))) = [] \<and>
   fst (start_nft_auction () (stub_wallet ''0xabc'' ''link'')
          ''0x036CbD53842c5426634e7929541eC2318f3dCF7e'' 1 0x7E37E43C8800759C 86400) =
     Inr ''Error creating auction: cannot convert float infinity to integer'' \<and>
   \<bar>valof (decode 0x7E37E43C8800759C) - 10 ^ 300\<bar> \<le> 2 ^ 943"
  by (simp add: start_no_wei [OF huge_eth_wei] new_events_same huge_eth caught_builtin)

text \<open>
  C4, amended. When \<open>int(starting_price * 10**18)\<close> yields an integer, which it does exactly
  when the float product is finite, \<open>start_nft_auction\<close> submits one invocation and no
  second one: to the fixed address \<open>0xA0f0b923532fdbcd85A11ccAED1362691C7931fA\<close>, with method
  \<open>createAuction\<close>, with the NFT contract address, the token id, the wei value and the
  duration as arguments and no value attached; and it waits for the invocation before it
  returns, unless the submission itself raised. When the conversion raises, nothing is
  submitted and the error text is returned.
\<close>

theorem start_submits_once_when_price_converts:
  "start_invocation AUCTION_ABI nft_contract_address token_id wei duration =
     \<lparr>inv_contract_address = ''0xA0f0b923532fdbcd85A11ccAED1362691C7931fA'',
      inv_method = ''createAuction'',
      inv_args = [(''nftContract'', PyStr nft_contract_address),
                  (''tokenId'', PyInt token_id),
                  (''startingPrice'', PyInt wei),
                  (''duration'', PyInt duration)],
      inv_abi = AUCTION_ABI,
      inv_value = None\<rparr> \<and>
   (eth_to_wei starting_price = Inr wei \<longrightarrow>
      new_events wallet
        (snd (start_nft_auction AUCTION_ABI wallet nft_contract_address token_id starting_price duration)) =
        Invoked (start_invocation AUCTION_ABI nft_contract_address token_id wei duration) #
        (if on_invoke wallet (history wallet)
              (start_invocation AUCTION_ABI nft_contract_address token_id wei duration) = None
         then [Waited (start_invocation AUCTION_ABI nft_contract_address token_id wei duration)]
         else [])) \<and>
   (eth_to_wei starting_price = Inl e \<longrightarrow>
      new_events wallet
        (snd (start_nft_auction AUCTION_ABI wallet nft_contract_address token_id starting_price duration)) = [] \<and>
      (\<exists>text_of_e. exc_str e = Inr text_of_e \<and>
         fst (start_nft_auction AUCTION_ABI wallet nft_contract_address token_id starting_price duration) =
           Inr (''Error creating auction: '' @ text_of_e))) \<and>
   ((\<exists>wei'. eth_to_wei starting_price = Inr wei') =
      (\<exists>product. float_times_int (decode starting_price) (10 ^ 18) = Inr product \<and> is_finite product))"
proof (intro conjI impI)
  show "start_invocation AUCTION_ABI nft_contract_address token_id wei duration =
     \<lparr>inv_contract_address = ''0xA0f0b923532fdbcd85A11ccAED1362691C7931fA'',
      inv_method = ''createAuction'',
      inv_args = [(''nftContract'', PyStr nft_contract_address),
                  (''tokenId'', PyInt token_id),
                  (''startingPrice'', PyInt wei),
                  (''duration'', PyInt duration)],
      inv_abi = AUCTION_ABI,
      inv_value = None\<rparr>"
    by (simp add: start_invocation_def AUCTION_CONTRACT_ADDRESS_def)
next
  assume "eth_to_wei starting_price = Inr wei"
  then show "new_events wallet
        (snd (start_nft_auction AUCTION_ABI wallet nft_contract_address token_id starting_price duration)) =
        Invoked (start_invocation AUCTION_ABI nft_contract_address token_id wei duration) #
        (if on_invoke wallet (history wallet)
              (start_invocation AUCTION_ABI nft_contract_address token_id wei duration) = None
         then [Waited (start_invocation AUCTION_ABI nft_contract_address token_id wei duration)]
         else [])"
    by (simp only: start_events sum.case invoke_and_wait_events)
next
  assume raised: "eth_to_wei starting_price = Inl e"
  show "new_events wallet
        (snd (start_nft_auction AUCTION_ABI wallet nft_contract_address token_id starting_price duration)) = []"
    by (simp add: start_no_wei [OF raised] new_events_same)
  from raised obtain name message where e: "e = builtin_error name message"
    by (auto dest: eth_to_wei_raises_builtin)
  show "\<exists>text_of_e. exc_str e = Inr text_of_e \<and>
         fst (start_nft_auction AUCTION_ABI wallet nft_contract_address token_id starting_price duration) =
           Inr (''Error creating auction: '' @ text_of_e)"
    by (simp add: start_no_wei [OF raised] e caught_builtin) (simp add: builtin_error_def)
next
  show "(\<exists>wei'. eth_to_wei starting_price = Inr wei') =
      (\<exists>product. float_times_int (decode starting_price) (10 ^ 18) = Inr product \<and> is_finite product)"
    by (simp add: eth_to_wei_succeeds_iff price_times_ten18)
qed

text \<open>C4, amended, at the starting prices \<open>0.1\<close> and \<open>1e300\<close> with the stub wallet.\<close>

theorem start_submits_once_when_price_converts_witness:
  "eth_to_wei 0x3FB999999999999A = Inr 100000000000000000 \<and>
   new_events (stub_wallet ''0xabc'' ''link'')
     (snd (start_nft_auction () (stub_wallet ''0xabc'' ''link'')
             ''0x036CbD53842c5426634e7929541eC2318f3dCF7e'' 1 0x3FB999999999999A 86400)) =
     [Invoked (start_invocation () ''0x036CbD53842c5426634e7929541eC2318f3dCF7e'' 1 100000000000000000 86400),
      Waited (start_invocation () ''0x036CbD53842c5426634e7929541eC2318f3dCF7e'' 1 100000000000000000 86400)] \<and>
   eth_to_wei 0x7E37E43C8800759C =
     Inl (builtin_error ''OverflowError'' ''cannot convert float infinity to integer'') \<and>
   new_events (stub_wallet ''0xabc'' ''link'')
     (snd (start_nft_auction () (stub_wallet ''0xabc'' ''link'')
             ''0x036CbD53842c5426634e7929541eC2318f3dCF7e'' 1 0x7E37E43C8800759C 86400)) = []"
  using start_submits_once_when_price_converts
          [where wallet = "stub_wallet ''0xabc'' ''link''" and AUCTION_ABI = "()" and token_id = 1
             and duration = 86400 and nft_contract_address = "''0x036CbD53842c5426634e7929541eC2318f3dCF7e''"
             and starting_price = "0x3FB999999999999A" and wei = 100000000000000000]
        start_submits_once_when_price_converts
          [where wallet = "stub_wallet ''0xabc'' ''link''" and AUCTION_ABI = "()" and token_id = 1
             and duration = 86400 and nft_contract_address = "''0x036CbD53842c5426634e7929541eC2318f3dCF7e''"
             and starting_price = "0x7E37E43C8800759C"
             and e = "builtin_error ''OverflowError'' ''cannot convert float infinity to integer''"]
  by (simp add: tenth_eth_wei huge_eth_wei stub_wallet_def)

text \<open>
  C5. Against the stub wallet that settles with hash \<open>0xabc\<close> and link \<open>link\<close>,
  \<open>start_nft_auction(addr, 1, 0.1, 86400)\<close> returns the success text below, which contains
  \<open>token ID 1\<close>, \<open>0.1 ETH\<close>, \<open>86400 seconds\<close>, \<open>0xabc\<close> and \<open>link\<close>. The price is the double
  nearest to one tenth, \<open>0x3FB999999999999A\<close>.
\<close>
theorem start_success_text_example:
  "(\<exists>message.
      fst (start_nft_auction () (stub_wallet ''0xabc'' ''link'') nft_contract_address 1
             0x3FB999999999999A 86400) = Inr message \<and>
      message =
        ''Auction created successfully for token ID 1.'' @ newline @
        ''NFT Contract: '' @ nft_contract_address @ newline @
        ''Starting price: 0.1 ETH'' @ newline @
        ''Duration: 86400 seconds'' @ newline @
        ''Transaction hash: 0xabc'' @ newline @
        ''Transaction link: link'' \<and>
      sublist ''token ID 1'' message \<and>
      sublist ''0.1 ETH'' message \<and>
      sublist ''86400 seconds'' message \<and>
      sublist ''0xabc'' message \<and>
      sublist ''link'' message) \<and>
   \<bar>valof (decode 0x3FB999999999999A) - 1 / 10\<bar> \<le> 1 / 2 ^ 57"
proof -
  define msg where "msg =
     ''Auction created successfully for token ID 1.'' @ newline @
     ''NFT Contract: '' @ nft_contract_address @ newline @
     ''Starting price: 0.1 ETH'' @ newline @
     ''Duration: 86400 seconds'' @ newline @
     ''Transaction hash: 0xabc'' @ newline @
     ''Transaction link: link''"
  have returned: "fst (start_nft_auction () (stub_wallet ''0xabc'' ''link'') nft_contract_address 1
             0x3FB999999999999A 86400) = Inr msg"
    unfolding msg_def
    by (simp add: start_result tenth_eth_wei invoke_and_wait_settles [OF stub_wallet_settles]
        start_message_settled_with and_then_def str_float_tenth str_int_1 str_int_86400)
  have "sublist ''token ID 1''
      (''Auction created successfully for '' @ ''token ID 1'' @
       (''.'' @ newline @ ''NFT Contract: '' @ nft_contract_address @ newline @
        ''Starting price: 0.1 ETH'' @ newline @ ''Duration: 86400 seconds'' @ newline @
        ''Transaction hash: 0xabc'' @ newline @ ''Transaction link: link''))"
    by (rule sublist_appendI)
  then have token: "sublist ''token ID 1'' msg"
    by (simp add: msg_def)
  have "sublist ''0.1 ETH''
      ((''Auction created successfully for token ID 1.'' @ newline @
        ''NFT Contract: '' @ nft_contract_address @ newline @ ''Starting price: '') @ ''0.1 ETH'' @
       (newline @ ''Duration: 86400 seconds'' @ newline @
        ''Transaction hash: 0xabc'' @ newline @ ''Transaction link: link''))"
    by (rule sublist_appendI)
  then have price: "sublist ''0.1 ETH'' msg"
    by (simp add: msg_def)
  have "sublist ''86400 seconds''
      ((''Auction created successfully for token ID 1.'' @ newline @
        ''NFT Contract: '' @ nft_contract_address @ newline @ ''Starting price: 0.1 ETH'' @ newline @
        ''Duration: '') @ ''86400 seconds'' @
       (newline @ ''Transaction hash: 0xabc'' @ newline @ ''Transaction link: link''))"
    by (rule sublist_appendI)
  then have seconds: "sublist ''86400 seconds'' msg"
    by (simp add: msg_def)
  have "sublist ''0xabc''
      ((''Auction created successfully for token ID 1.'' @ newline @
        ''NFT Contract: '' @ nft_contract_address @ newline @ ''Starting price: 0.1 ETH'' @ newline @
        ''Duration: 86400 seconds'' @ newline @ ''Transaction hash: '') @ ''0xabc'' @
       (newline @ ''Transaction link: link''))"
    by (rule sublist_appendI)
  then have tx_hash: "sublist ''0xabc'' msg"
    by (simp add: msg_def)
  have "sublist ''link''
      ((''Auction created successfully for token ID 1.'' @ newline @
        ''NFT Contract: '' @ nft_contract_address @ newline @ ''Starting price: 0.1 ETH'' @ newline @
        ''Duration: 86400 seconds'' @ newline @ ''Transaction hash: 0xabc'' @ newline @
        ''Transaction link: '') @ ''link'' @ [])"
    by (rule sublist_appendI)
  then have tx_link: "sublist ''link'' msg"
    by (simp add: msg_def)
  from returned token price seconds tx_hash tx_link
  have "\<exists>message.
      fst (start_nft_auction () (stub_wallet ''0xabc'' ''link'') nft_contract_address 1
             0x3FB999999999999A 86400) = Inr message \<and>
      message = msg \<and>
      sublist ''token ID 1'' message \<and>
      sublist ''0.1 ETH'' message \<and>
      sublist ''86400 seconds'' message \<and>
      sublist ''0xabc'' message \<and>
      sublist ''link'' message"
    by blast
  with tenth_is_nearest show ?thesis
    unfolding msg_def by (rule conjI [rotated])
qed

text \<open>C5, at a concrete NFT contract address.\<close>

theorem start_success_text_example_witness:
  "fst (start_nft_auction () (stub_wallet ''0xabc'' ''link'')
          ''0x036CbD53842c5426634e7929541eC2318f3dCF7e'' 1 0x3FB999999999999A 86400) =
     Inr (''Auction created successfully for token ID 1.'' @ newline @
          ''NFT Contract: 0x036CbD53842c5426634e7929541eC2318f3dCF7e'' @ newline @
          ''Starting price: 0.1 ETH'' @ newline @
          ''Duration: 86400 seconds'' @ newline @
          ''Transaction hash: 0xabc'' @ newline @
          ''Transaction link: link'')"
  using start_success_text_example [where nft_contract_address = "''0x036CbD53842c5426634e7929541eC2318f3dCF7e''"]
  by auto

text \<open>
  C6 as stated does not hold for every failure. When the wallet's \<open>wait\<close> raises
  \<open>KeyboardInterrupt\<close>, which is not an instance of \<open>Exception\<close>, \<open>finalize_nft_auction\<close>
  returns no text: the interrupt goes through to the caller.
\<close>

theorem finalize_interrupt_propagates_counterexample:
  "on_invoke (waiting_wallet (Inl (PyException ''KeyboardInterrupt'' False (Inr [])))) []
     (finalize_invocation () 7) = None \<and>
   on_wait (waiting_wallet (Inl (PyException ''KeyboardInterrupt'' False (Inr []))))
     [Invoked (finalize_invocation () 7)] (finalize_invocation () 7) =
     Inl (PyException ''KeyboardInterrupt'' False (Inr [])) \<and>
   fst (finalize_nft_auction () (waiting_wallet (Inl (PyException ''KeyboardInterrupt'' False (Inr [])))) 7) =
     Inl (PyException ''KeyboardInterrupt'' False (Inr []))"
  by (simp add: finalize_wallet_raises [OF waiting_wallet_raises] caught_def) (simp add: waiting_wallet_def)

text \<open>
  C6, amended. For every token id and every wallet, \<open>finalize_nft_auction\<close> submits one
  invocation: to the fixed contract address, with method \<open>finalizeAuction\<close>, an argument
  mapping that holds the token id and nothing else, and no value attached. When the wallet
  raises \<open>e\<close> on the submission or on the wait, and \<open>e\<close> is an instance of \<open>Exception\<close>
  whose \<open>str(e)\<close> returns a text, it returns \<open>Error finalizing auction: \<close> followed by
  that text; what is not an instance of \<open>Exception\<close>, and what \<open>str(e)\<close> raises, goes
  through to the caller.
\<close>

theorem finalize_submits_token_id_only:
  "finalize_invocation AUCTION_ABI token_id =
     \<lparr>inv_contract_address = ''0xA0f0b923532fdbcd85A11ccAED1362691C7931fA'',
      inv_method = ''finalizeAuction'',
      inv_args = [(''tokenId'', PyInt token_id)],
      inv_abi = AUCTION_ABI,
      inv_value = None\<rparr> \<and>
   invocations (new_events wallet (snd (finalize_nft_auction AUCTION_ABI wallet token_id))) =
     [finalize_invocation AUCTION_ABI token_id] \<and>
   (\<forall>e. on_invoke wallet (history wallet) (finalize_invocation AUCTION_ABI token_id) = Some e \<or>
        on_invoke wallet (history wallet) (finalize_invocation AUCTION_ABI token_id) = None \<and>
        on_wait wallet (history wallet @ [Invoked (finalize_invocation AUCTION_ABI token_id)])
          (finalize_invocation AUCTION_ABI token_id) = Inl e \<longrightarrow>
      fst (finalize_nft_auction AUCTION_ABI wallet token_id) =
        (if is_Exception e
         then (case exc_str e of
                 Inl e' \<Rightarrow> Inl e'
               | Inr text_of_e \<Rightarrow> Inr (''Error finalizing auction: '' @ text_of_e))
         else Inl e))"
proof (intro conjI allI impI)
  show "finalize_invocation AUCTION_ABI token_id =
     \<lparr>inv_contract_address = ''0xA0f0b923532fdbcd85A11ccAED1362691C7931fA'',
      inv_method = ''finalizeAuction'',
      inv_args = [(''tokenId'', PyInt token_id)],
      inv_abi = AUCTION_ABI,
      inv_value = None\<rparr>"
    by (simp add: finalize_invocation_def AUCTION_CONTRACT_ADDRESS_def)
next
  show "invocations (new_events wallet (snd (finalize_nft_auction AUCTION_ABI wallet token_id))) =
     [finalize_invocation AUCTION_ABI token_id]"
    by (simp only: finalize_events invoke_and_wait_invocations)
next
  fix e
  assume "on_invoke wallet (history wallet) (finalize_invocation AUCTION_ABI token_id) = Some e \<or>
        on_invoke wallet (history wallet) (finalize_invocation AUCTION_ABI token_id) = None \<and>
        on_wait wallet (history wallet @ [Invoked (finalize_invocation AUCTION_ABI token_id)])
          (finalize_invocation AUCTION_ABI token_id) = Inl e"
  then have "wallet_raises wallet (finalize_invocation AUCTION_ABI token_id) e"
    by (simp only: wallet_raises_iff)
  then show "fst (finalize_nft_auction AUCTION_ABI wallet token_id) =
        (if is_Exception e
         then (case exc_str e of
                 Inl e' \<Rightarrow> Inl e'
               | Inr text_of_e \<Rightarrow> Inr (''Error finalizing auction: '' @ text_of_e))
         else Inl e)"
    unfolding caught_def [symmetric] by (rule finalize_wallet_raises)
qed

text \<open>
  C6, amended, for token 7: at a wallet that refuses every submission with
  \<open>insufficient funds\<close>, and at a wallet that accepts it and whose \<open>wait\<close> raises
  \<open>execution reverted\<close>.
\<close>

theorem finalize_submits_token_id_only_witness:
  "invocations (new_events (failing_wallet (PyException ''Exception'' True (Inr ''insufficient funds'')))
     (snd (finalize_nft_auction () (failing_wallet (PyException ''Exception'' True (Inr ''insufficient funds''))) 7))) =
     [\<lparr>inv_contract_address = ''0xA0f0b923532fdbcd85A11ccAED1362691C7931fA'',
       inv_method = ''finalizeAuction'',
       inv_args = [(''tokenId'', PyInt 7)],
       inv_abi = (),
       inv_value = None\<rparr>] \<and>
   fst (finalize_nft_auction () (failing_wallet (PyException ''Exception'' True (Inr ''insufficient funds''))) 7) =
     Inr ''Error finalizing auction: insufficient funds'' \<and>
   fst (finalize_nft_auction ()
          (waiting_wallet (Inl (PyException ''Exception'' True (Inr ''execution reverted'')))) 7) =
     Inr ''Error finalizing auction: execution reverted''"
proof -
  have refused: "on_invoke (failing_wallet (PyException ''Exception'' True (Inr ''insufficient funds'')))
      (history (failing_wallet (PyException ''Exception'' True (Inr ''insufficient funds''))))
      (finalize_invocation () 7) = Some (PyException ''Exception'' True (Inr ''insufficient funds''))"
    by (simp add: failing_wallet_def)
  have accepted: "on_invoke (waiting_wallet (Inl (PyException ''Exception'' True (Inr ''execution reverted''))))
      (history (waiting_wallet (Inl (PyException ''Exception'' True (Inr ''execution reverted'')))))
      (finalize_invocation () 7) = None"
    by (simp add: waiting_wallet_def)
  have reverted: "on_wait (waiting_wallet (Inl (PyException ''Exception'' True (Inr ''execution reverted''))))
      (history (waiting_wallet (Inl (PyException ''Exception'' True (Inr ''execution reverted'')))) @
       [Invoked (finalize_invocation () 7)])
      (finalize_invocation () 7) = Inl (PyException ''Exception'' True (Inr ''execution reverted''))"
    by (simp add: waiting_wallet_def)
  from finalize_submits_token_id_only
         [where wallet = "failing_wallet (PyException ''Exception'' True (Inr ''insufficient funds''))"
            and AUCTION_ABI = "()" and token_id = 7]
       finalize_submits_token_id_only
         [where wallet = "waiting_wallet (Inl (PyException ''Exception'' True (Inr ''execution reverted'')))"
            and AUCTION_ABI = "()" and token_id = 7]
       refused accepted reverted
  show ?thesis
    by simp
qed




text \<open>
  C8 as stated does not hold for every negative price. The starting price \<open>-1e300\<close> (the
  double \<open>0xFE37E43C8800759C\<close>) is negative, its float product with \<open>10**18\<close> is minus
  infinity, \<open>int\<close> raises, and no invocation is built or submitted.
\<close>

theorem start_negative_overflow_counterexample:
  "float_le_zero (decode 0xFE37E43C8800759C) \<and>
   invocations (new_events (stub_wallet ''0xabc'' ''link'')
     (snd (start_nft_auction () (stub_wallet ''0xabc'' ''link'')
             ''0x036CbD53842c5426634e7929541eC2318f3dCF7e'' 1 0xFE37E43C8800759C 86400))) = [] \<and>
   fst (start_nft_auction () (stub_wallet ''0xabc'' ''link'')
          ''0x036CbD53842c5426634e7929541eC2318f3dCF7e'' 1 0xFE37E43C8800759C 86400) =
     Inr ''Error creating auction: cannot convert float infinity to integer'' \<and>
   \<bar>valof (decode 0xFE37E43C8800759C) + 10 ^ 300\<bar> \<le> 2 ^ 943"
  by (simp add: start_no_wei [OF neg_huge_eth_wei] new_events_same neg_huge_eth caught_builtin)

text \<open>
  C8, amended. For every starting price that is zero or negative and whose float product
  with \<open>10**18\<close> is finite (it is for every finite price of magnitude below \<open>2^963\<close>, see
  \<open>product_is_finite\<close>), and for every duration, \<open>start_nft_auction\<close> checks nothing:
  the price is converted (the product truncated towards zero, so a wei value of zero or
  less) and the invocation is built and submitted with it.
\<close>

theorem start_accepts_zero_and_negative_price:
  assumes nonpos: "float_le_zero (decode starting_price)"
    and product: "float_times_int (decode starting_price) (10 ^ 18) = Inr (Finite sign q e)"
  shows "invocations (new_events wallet
           (snd (start_nft_auction AUCTION_ABI wallet nft_contract_address token_id starting_price duration))) =
           [\<lparr>inv_contract_address = AUCTION_CONTRACT_ADDRESS,
             inv_method = ''createAuction'',
             inv_args = [(''nftContract'', PyStr nft_contract_address),
                         (''tokenId'', PyInt token_id),
                         (''startingPrice'', PyInt \<lceil>valof (Finite sign q e)\<rceil>),
                         (''duration'', PyInt duration)],
             inv_abi = AUCTION_ABI,
             inv_value = None\<rparr>] \<and>
         \<lceil>valof (Finite sign q e)\<rceil> \<le> 0"
proof -
  from product have p: "float_mul (decode starting_price) (Finite False 7812500000000000 7) = Finite sign q e"
    by (simp add: price_times_ten18)
  note wei = wei_of_nonpos_price [OF nonpos p]
  have "invocations (new_events wallet
          (snd (start_nft_auction AUCTION_ABI wallet nft_contract_address token_id starting_price duration))) =
        [start_invocation AUCTION_ABI nft_contract_address token_id \<lceil>valof (Finite sign q e)\<rceil> duration]"
    using wei(1) by (rule start_invocations)
  with wei(2) show ?thesis
    by (simp add: start_invocation_def del: valof.simps)
qed

text \<open>C8, amended, at the starting price \<open>-0.5\<close> and the duration \<open>-5\<close>.\<close>

theorem start_accepts_zero_and_negative_price_witness:
  "float_le_zero (decode 0xBFE0000000000000) \<and>
   float_times_int (decode 0xBFE0000000000000) (10 ^ 18) = Inr (Finite True 7812500000000000 6) \<and>
   invocations (new_events (stub_wallet ''0xabc'' ''link'')
     (snd (start_nft_auction () (stub_wallet ''0xabc'' ''link'')
             ''0x036CbD53842c5426634e7929541eC2318f3dCF7e'' 1 0xBFE0000000000000 (- 5)))) =
     [\<lparr>inv_contract_address = AUCTION_CONTRACT_ADDRESS,
       inv_method = ''createAuction'',
       inv_args = [(''nftContract'', PyStr ''0x036CbD53842c5426634e7929541eC2318f3dCF7e''),
                   (''tokenId'', PyInt 1),
                   (''startingPrice'', PyInt (- 500000000000000000)),
                   (''duration'', PyInt (- 5))],
       inv_abi = (),
       inv_value = None\<rparr>] \<and>
   float_le_zero (decode 0) \<and>
   float_times_int (decode 0) (10 ^ 18) = Inr (Finite False 0 (- 1067)) \<and>
   invocations (new_events (stub_wallet ''0xabc'' ''link'')
     (snd (start_nft_auction () (stub_wallet ''0xabc'' ''link'')
             ''0x036CbD53842c5426634e7929541eC2318f3dCF7e'' 1 0 0))) =
     [\<lparr>inv_contract_address = AUCTION_CONTRACT_ADDRESS,
       inv_method = ''createAuction'',
       inv_args = [(''nftContract'', PyStr ''0x036CbD53842c5426634e7929541eC2318f3dCF7e''),
                   (''tokenId'', PyInt 1),
                   (''startingPrice'', PyInt 0),
                   (''duration'', PyInt 0)],
       inv_abi = (),
       inv_value = None\<rparr>]"
proof -
  have zero: "float_le_zero (decode 0)"
    by (simp add: decode_def)
  have zero_product: "float_times_int (decode 0) (10 ^ 18) = Inr (Finite False 0 (- 1067))"
    by (simp add: price_times_ten18 decode_def round_to_double_def bit_length.simps round_half_even_def)
  note at_zero = start_accepts_zero_and_negative_price [OF zero zero_product,
         where wallet = "stub_wallet ''0xabc'' ''link''" and AUCTION_ABI = "()" and token_id = 1
           and duration = 0 and nft_contract_address = "''0x036CbD53842c5426634e7929541eC2318f3dCF7e''"]
  have nonpos: "float_le_zero (decode 0xBFE0000000000000)"
    by (simp add: neg_half_eth)
  have product: "float_times_int (decode 0xBFE0000000000000) (10 ^ 18) = Inr (Finite True 7812500000000000 6)"
    by (simp add: price_times_ten18 product_neg_half)
  have "valof (Finite True 7812500000000000 6) = - 500000000000000000"
    by simp
  with start_accepts_zero_and_negative_price [OF nonpos product,
         where wallet = "stub_wallet ''0xabc'' ''link''" and AUCTION_ABI = "()" and token_id = 1
           and duration = "- 5" and nft_contract_address = "''0x036CbD53842c5426634e7929541eC2318f3dCF7e''"]
       nonpos product zero zero_product at_zero
  show ?thesis
    by simp
qed

text \<open>
  C9 as stated does not hold for everything that can be raised after the invocation has
  settled. A \<open>KeyboardInterrupt\<close> raised while the link or the hash of the settled result is
  read is not an instance of \<open>Exception\<close>: it is not turned into the error text, it goes
  through to the caller.
\<close>

theorem malformed_result_interrupt_counterexample:
  "fst (bid_on_nft ()
          (waiting_wallet (Inr \<lparr>transaction = Inr
             \<lparr>transaction_hash = Inr ''0xabc'',
              transaction_link = Inl (PyException ''KeyboardInterrupt'' False (Inr []))\<rparr>\<rparr>))
          1 0x3FE0000000000000) =
     Inl (PyException ''KeyboardInterrupt'' False (Inr [])) \<and>
   fst (start_nft_auction ()
          (waiting_wallet (Inr \<lparr>transaction = Inr
             \<lparr>transaction_hash = Inl (PyException ''KeyboardInterrupt'' False (Inr [])),
              transaction_link = Inr ''link''\<rparr>\<rparr>))
          ''0x036CbD53842c5426634e7929541eC2318f3dCF7e'' 1 0x3FB999999999999A 86400) =
     Inl (PyException ''KeyboardInterrupt'' False (Inr []))"
proof -
  have link: "attribute_raises
      \<lparr>transaction = Inr \<lparr>transaction_hash = Inr ''0xabc'',
         transaction_link = Inl (PyException ''KeyboardInterrupt'' False (Inr []))\<rparr>\<rparr>
      (PyException ''KeyboardInterrupt'' False (Inr []))"
    by (simp add: attribute_raises_def)
  have hash: "attribute_raises
      \<lparr>transaction = Inr \<lparr>transaction_hash = Inl (PyException ''KeyboardInterrupt'' False (Inr [])),
         transaction_link = Inr ''link''\<rparr>\<rparr>
      (PyException ''KeyboardInterrupt'' False (Inr []))"
    by (simp add: attribute_raises_def)
  show ?thesis
    by (simp add: bid_attribute_raises [OF half_eth_wei waiting_wallet_settles link]
        start_attribute_raises [OF tenth_eth_wei waiting_wallet_settles hash]
        small_int_prints caught_def)
qed

text \<open>
  C9, amended. The success text is built inside the \<open>try\<close> block. When the wallet settles
  the invocation and reading \<open>.transaction\<close>, the hash or the link of the result raises
  \<open>e\<close>, an instance of \<open>Exception\<close> whose \<open>str(e)\<close> returns a text, each of the three
  functions returns its error prefix followed by that text: the very text it returns when
  another wallet raises \<open>e\<close> on submission or wait. (When the token id or the duration has
  more than 4300 digits, formatting it raises before the result is read, and the prefix is
  followed by the text of that \<open>ValueError\<close>.) The prefix does not tell a submission
  failure from a malformed result.
\<close>

theorem malformed_result_becomes_same_error_text:
  assumes malformed:
      "transaction result = Inl e \<or>
       (\<exists>tx. transaction result = Inr tx \<and>
          (transaction_hash tx = Inl e \<or>
           (\<exists>tx_hash. transaction_hash tx = Inr tx_hash \<and> transaction_link tx = Inl e)))"
    and exception: "is_Exception e"
    and text_of_e: "exc_str e = Inr text_of_e"
  shows
    "wallet_settles wallet call result =
       (on_invoke wallet (history wallet) call = None \<and>
        on_wait wallet (history wallet @ [Invoked call]) call = Inr result) \<and>
     wallet_raises other_wallet call e =
       (on_invoke other_wallet (history other_wallet) call = Some e \<or>
        on_invoke other_wallet (history other_wallet) call = None \<and>
        on_wait other_wallet (history other_wallet @ [Invoked call]) call = Inl e) \<and>
     int_prints i = (\<bar>i\<bar> < 10 ^ 4300) \<and>
     (\<forall>wei. eth_to_wei starting_price = Inr wei \<and>
        wallet_settles wallet (start_invocation AUCTION_ABI nft_contract_address token_id wei duration) result \<longrightarrow>
        fst (start_nft_auction AUCTION_ABI wallet nft_contract_address token_id starting_price duration) =
          Inr (''Error creating auction: '' @
               (if int_prints token_id \<and> int_prints duration then text_of_e else digits_limit_text)) \<and>
        (wallet_raises other_wallet (start_invocation AUCTION_ABI nft_contract_address token_id wei duration) e \<longrightarrow>
           fst (start_nft_auction AUCTION_ABI other_wallet nft_contract_address token_id starting_price duration) =
             Inr (''Error creating auction: '' @ text_of_e))) \<and>
     (\<forall>wei. eth_to_wei bid_amount = Inr wei \<and>
        wallet_settles wallet (bid_invocation AUCTION_ABI token_id wei) result \<longrightarrow>
        fst (bid_on_nft AUCTION_ABI wallet token_id bid_amount) =
          Inr (''Error placing bid: '' @ (if int_prints token_id then text_of_e else digits_limit_text)) \<and>
        (wallet_raises other_wallet (bid_invocation AUCTION_ABI token_id wei) e \<longrightarrow>
           fst (bid_on_nft AUCTION_ABI other_wallet token_id bid_amount) =
             Inr (''Error placing bid: '' @ text_of_e))) \<and>
     (wallet_settles wallet (finalize_invocation AUCTION_ABI token_id) result \<longrightarrow>
        fst (finalize_nft_auction AUCTION_ABI wallet token_id) =
          Inr (''Error finalizing auction: '' @ (if int_prints token_id then text_of_e else digits_limit_text)) \<and>
        (wallet_raises other_wallet (finalize_invocation AUCTION_ABI token_id) e \<longrightarrow>
           fst (finalize_nft_auction AUCTION_ABI other_wallet token_id) =
             Inr (''Error finalizing auction: '' @ text_of_e)))"
proof -
  from malformed have raises: "attribute_raises result e"
    by (simp only: attribute_raises_iff)
  have caught_e: "caught error_prefix e = Inr (error_prefix @ text_of_e)" for error_prefix
    using exception text_of_e by (rule caught_text)
  have caught_any: "caught error_prefix (if b then e else builtin_error ''ValueError'' digits_limit_text) =
      Inr (error_prefix @ (if b then text_of_e else digits_limit_text))" for error_prefix b
    by (simp add: caught_e caught_builtin)
  have settles: "wallet_settles wallet call result =
       (on_invoke wallet (history wallet) call = None \<and>
        on_wait wallet (history wallet @ [Invoked call]) call = Inr result)"
    by (rule wallet_settles_def)
  have other: "wallet_raises other_wallet call e =
       (on_invoke other_wallet (history other_wallet) call = Some e \<or>
        on_invoke other_wallet (history other_wallet) call = None \<and>
        on_wait other_wallet (history other_wallet @ [Invoked call]) call = Inl e)"
    by (rule wallet_raises_iff)
  have limit: "int_prints i = (\<bar>i\<bar> < 10 ^ 4300)"
    by (simp only: int_prints_def int_max_str_digits_def)
  have start: "fst (start_nft_auction AUCTION_ABI wallet nft_contract_address token_id starting_price duration) =
          Inr (''Error creating auction: '' @
               (if int_prints token_id \<and> int_prints duration then text_of_e else digits_limit_text)) \<and>
        (wallet_raises other_wallet (start_invocation AUCTION_ABI nft_contract_address token_id wei duration) e \<longrightarrow>
           fst (start_nft_auction AUCTION_ABI other_wallet nft_contract_address token_id starting_price duration) =
             Inr (''Error creating auction: '' @ text_of_e))"
    if "eth_to_wei starting_price = Inr wei"
      and "wallet_settles wallet (start_invocation AUCTION_ABI nft_contract_address token_id wei duration) result"
    for wei
    using start_attribute_raises [OF that raises]
      start_wallet_raises [OF that(1), where e = e and w = other_wallet and abi = AUCTION_ABI
        and addr = nft_contract_address and t = token_id and d = duration]
    by (simp only: caught_any caught_e) simp
  have bid: "fst (bid_on_nft AUCTION_ABI wallet token_id bid_amount) =
          Inr (''Error placing bid: '' @ (if int_prints token_id then text_of_e else digits_limit_text)) \<and>
        (wallet_raises other_wallet (bid_invocation AUCTION_ABI token_id wei) e \<longrightarrow>
           fst (bid_on_nft AUCTION_ABI other_wallet token_id bid_amount) =
             Inr (''Error placing bid: '' @ text_of_e))"
    if "eth_to_wei bid_amount = Inr wei"
      and "wallet_settles wallet (bid_invocation AUCTION_ABI token_id wei) result"
    for wei
    using bid_attribute_raises [OF that raises]
      bid_wallet_raises [OF that(1), where e = e and w = other_wallet and abi = AUCTION_ABI
        and t = token_id]
    by (simp only: caught_any caught_e) simp
  have finalize: "fst (finalize_nft_auction AUCTION_ABI wallet token_id) =
          Inr (''Error finalizing auction: '' @ (if int_prints token_id then text_of_e else digits_limit_text)) \<and>
        (wallet_raises other_wallet (finalize_invocation AUCTION_ABI token_id) e \<longrightarrow>
           fst (finalize_nft_auction AUCTION_ABI other_wallet token_id) =
             Inr (''Error finalizing auction: '' @ text_of_e))"
    if "wallet_settles wallet (finalize_invocation AUCTION_ABI token_id) result"
    using finalize_attribute_raises [OF that raises]
      finalize_wallet_raises [where e = e and w = other_wallet and abi = AUCTION_ABI and t = token_id]
    by (simp only: caught_any caught_e) simp
  from settles other limit start bid finalize show ?thesis
    by (intro conjI allI impI; (elim conjE)?) blast+
qed

text \<open>
  C9, amended, for token 1: at a settled result whose \<open>.transaction\<close> raises, at one that
  lacks the hash, and at one that lacks the link, each compared with a wallet that raises
  the same \<open>AttributeError\<close> on submission.
\<close>

theorem malformed_result_becomes_same_error_text_witness:
  "fst (start_nft_auction ()
          (waiting_wallet (Inr \<lparr>transaction = Inl (PyException ''AttributeError'' True (Inr ''transaction''))\<rparr>))
          ''0x036CbD53842c5426634e7929541eC2318f3dCF7e'' 1 0x3FB999999999999A 86400) =
     Inr ''Error creating auction: transaction'' \<and>
   fst (start_nft_auction () (failing_wallet (PyException ''AttributeError'' True (Inr ''transaction'')))
          ''0x036CbD53842c5426634e7929541eC2318f3dCF7e'' 1 0x3FB999999999999A 86400) =
     Inr ''Error creating auction: transaction'' \<and>
   fst (bid_on_nft ()
          (waiting_wallet (Inr \<lparr>transaction = Inr
             \<lparr>transaction_hash = Inl (PyException ''AttributeError'' True (Inr ''transaction_hash'')),
              transaction_link = Inr ''link''\<rparr>\<rparr>))
          1 0x3FE0000000000000) =
     Inr ''Error placing bid: transaction_hash'' \<and>
   fst (bid_on_nft () (failing_wallet (PyException ''AttributeError'' True (Inr ''transaction_hash''))) 1
          0x3FE0000000000000) =
     Inr ''Error placing bid: transaction_hash'' \<and>
   fst (finalize_nft_auction ()
          (waiting_wallet (Inr \<lparr>transaction = Inr
             \<lparr>transaction_hash = Inr ''0xabc'',
              transaction_link = Inl (PyException ''AttributeError'' True (Inr ''transaction_link''))\<rparr>\<rparr>))
          1) =
     Inr ''Error finalizing auction: transaction_link'' \<and>
   fst (finalize_nft_auction () (failing_wallet (PyException ''AttributeError'' True (Inr ''transaction_link''))) 1) =
     Inr ''Error finalizing auction: transaction_link''"
proof -
  have prints: "int_prints 1" "int_prints 86400"
    by (simp_all add: small_int_prints)
  note no_transaction =
    malformed_result_becomes_same_error_text
      [where result = "\<lparr>transaction = Inl (PyException ''AttributeError'' True (Inr ''transaction''))\<rparr>"
         and e = "PyException ''AttributeError'' True (Inr ''transaction'')"
         and text_of_e = "''transaction''"
         and wallet = "waiting_wallet (Inr \<lparr>transaction = Inl (PyException ''AttributeError'' True (Inr ''transaction''))\<rparr>)"
         and other_wallet = "failing_wallet (PyException ''AttributeError'' True (Inr ''transaction''))"
         and AUCTION_ABI = "()" and token_id = 1 and duration = 86400
         and nft_contract_address = "''0x036CbD53842c5426634e7929541eC2318f3dCF7e''"
         and starting_price = "0x3FB999999999999A" and bid_amount = "0x3FE0000000000000",
       THEN conjunct2, THEN conjunct2, THEN conjunct2, THEN conjunct1]
  note no_hash =
    malformed_result_becomes_same_error_text
      [where result = "\<lparr>transaction = Inr
             \<lparr>transaction_hash = Inl (PyException ''AttributeError'' True (Inr ''transaction_hash'')),
              transaction_link = Inr ''link''\<rparr>\<rparr>"
         and e = "PyException ''AttributeError'' True (Inr ''transaction_hash'')"
         and text_of_e = "''transaction_hash''"
         and wallet = "waiting_wallet (Inr \<lparr>transaction = Inr
             \<lparr>transaction_hash = Inl (PyException ''AttributeError'' True (Inr ''transaction_hash'')),
              transaction_link = Inr ''link''\<rparr>\<rparr>)"
         and other_wallet = "failing_wallet (PyException ''AttributeError'' True (Inr ''transaction_hash''))"
         and AUCTION_ABI = "()" and token_id = 1 and duration = 86400
         and nft_contract_address = "''0x036CbD53842c5426634e7929541eC2318f3dCF7e''"
         and starting_price = "0x3FB999999999999A" and bid_amount = "0x3FE0000000000000",
       THEN conjunct2, THEN conjunct2, THEN conjunct2, THEN conjunct2, THEN conjunct1]
  note no_link =
    malformed_result_becomes_same_error_text
      [where result = "\<lparr>transaction = Inr
             \<lparr>transaction_hash = Inr ''0xabc'',
              transaction_link = Inl (PyException ''AttributeError'' True (Inr ''transaction_link''))\<rparr>\<rparr>"
         and e = "PyException ''AttributeError'' True (Inr ''transaction_link'')"
         and text_of_e = "''transaction_link''"
         and wallet = "waiting_wallet (Inr \<lparr>transaction = Inr
             \<lparr>transaction_hash = Inr ''0xabc'',
              transaction_link = Inl (PyException ''AttributeError'' True (Inr ''transaction_link''))\<rparr>\<rparr>)"
         and other_wallet = "failing_wallet (PyException ''AttributeError'' True (Inr ''transaction_link''))"
         and AUCTION_ABI = "()" and token_id = 1 and duration = 86400
         and nft_contract_address = "''0x036CbD53842c5426634e7929541eC2318f3dCF7e''"
         and starting_price = "0x3FB999999999999A" and bid_amount = "0x3FE0000000000000",
       THEN conjunct2, THEN conjunct2, THEN conjunct2, THEN conjunct2, THEN conjunct2]
  from no_transaction no_hash no_link show ?thesis
    by (simp add: tenth_eth_wei half_eth_wei prints waiting_wallet_settles failing_wallet_raises)
qed

text \<open>
  C10. For every token id and bid amount, the invocation that \<open>bid_on_nft\<close> submits has
  method \<open>bid\<close> and the argument mapping \<open>{tokenId: token_id}\<close>, nothing more; the amount
  in wei is its attached value. When the conversion of the amount raises, nothing is
  submitted.
\<close>

theorem bid_arguments_hold_only_token_id:
  "(\<forall>wei. eth_to_wei bid_amount = Inr wei \<longrightarrow>
      invocations (new_events wallet (snd (bid_on_nft AUCTION_ABI wallet token_id bid_amount))) =
        [\<lparr>inv_contract_address = AUCTION_CONTRACT_ADDRESS,
          inv_method = ''bid'',
          inv_args = [(''tokenId'', PyInt token_id)],
          inv_abi = AUCTION_ABI,
          inv_value = Some wei\<rparr>]) \<and>
   (\<forall>e. eth_to_wei bid_amount = Inl e \<longrightarrow>
      invocations (new_events wallet (snd (bid_on_nft AUCTION_ABI wallet token_id bid_amount))) = [])"
  by (simp add: bid_events invoke_and_wait_invocations bid_invocation_def)

text \<open>C10, at the bid amounts \<open>0.5\<close> and \<open>1e300\<close>, for token 42.\<close>

theorem bid_arguments_hold_only_token_id_witness:
  "eth_to_wei 0x3FE0000000000000 = Inr 500000000000000000 \<and>
   invocations (new_events (stub_wallet ''0xabc'' ''link'')
     (snd (bid_on_nft () (stub_wallet ''0xabc'' ''link'') 42 0x3FE0000000000000))) =
     [\<lparr>inv_contract_address = AUCTION_CONTRACT_ADDRESS,
       inv_method = ''bid'',
       inv_args = [(''tokenId'', PyInt 42)],
       inv_abi = (),
       inv_value = Some 500000000000000000\<rparr>] \<and>
   eth_to_wei 0x7E37E43C8800759C =
     Inl (builtin_error ''OverflowError'' ''cannot convert float infinity to integer'') \<and>
   invocations (new_events (stub_wallet ''0xabc'' ''link'')
     (snd (bid_on_nft () (stub_wallet ''0xabc'' ''link'') 42 0x7E37E43C8800759C))) = []"
  using bid_arguments_hold_only_token_id
          [where wallet = "stub_wallet ''0xabc'' ''link''" and AUCTION_ABI = "()" and token_id = 42
             and bid_amount = "0x3FE0000000000000"]
        bid_arguments_hold_only_token_id
          [where wallet = "stub_wallet ''0xabc'' ''link''" and AUCTION_ABI = "()" and token_id = 42
             and bid_amount = "0x7E37E43C8800759C"]
  by (simp add: half_eth_wei huge_eth_wei)

end
